theory Spec2Isabelle
  imports Complex_Main "HOL-Library.AList" "HOL-Library.Log_Nat"
begin

section \<open>JavaScript values used by the pipeline\<close>

text \<open>
  The services are JavaScript. The embedding keeps the values the code distinguishes:
  an address slot of a transaction holds a string, or is absent (\<open>undefined\<close>), or
  \<open>null\<close> (what a JSON round trip turns \<open>undefined\<close> into inside an array); an option
  flag may also be a boolean.
\<close>

datatype jsval = JUndefined | JNull | JBool bool | JStr string

type_synonym address = jsval

text \<open>An exception of the source, with its message.\<close>

datatype error = ReferenceError string | TypeError string | Error string

fun message :: "error \<Rightarrow> string" where
  "message (ReferenceError m) = m"
| "message (TypeError m) = m"
| "message (Error m) = m"

fun truthy :: "jsval \<Rightarrow> bool" where
  "truthy JUndefined = False"
| "truthy JNull = False"
| "truthy (JBool b) = b"
| "truthy (JStr s) = (s \<noteq> [])"

text \<open>Conversion of a value to a property key or into a template string.\<close>

fun to_key :: "jsval \<Rightarrow> string" where
  "to_key JUndefined = ''undefined''"
| "to_key JNull = ''null''"
| "to_key (JBool b) = (if b then ''true'' else ''false'')"
| "to_key (JStr s) = s"

definition digit_char :: "nat \<Rightarrow> char" where
  "digit_char d = ''0123456789'' ! d"

fun show_nat :: "nat \<Rightarrow> string" where
  "show_nat n = (if n < 10 then [digit_char n] else show_nat (n div 10) @ [digit_char (n mod 10)])"

declare show_nat.simps [simp del]

subsection \<open>Objects used as dictionaries\<close>

text \<open>
  An object is the list of its own properties in creation order. Assignment is
  \<^const>\<open>AList.update\<close> (in place for an existing key, appended otherwise), \<open>delete\<close>
  is \<^const>\<open>AList.delete\<close>, lookup is \<^const>\<open>map_of\<close>. Enumeration (\<open>for ... in\<close>,
  \<open>Object.keys/values/entries\<close>) visits array-index keys first, in ascending numeric
  order, and then the other keys in creation order.
\<close>

definition index_value :: "string \<Rightarrow> int" where
  "index_value k = foldl (\<lambda>n c. 10 * n + (of_char c - 48)) 0 k"

definition is_array_index :: "string \<Rightarrow> bool" where
  "is_array_index k \<longleftrightarrow>
     k \<noteq> [] \<and> list_all (\<lambda>c. c \<in> set ''0123456789'') k \<and> (k = ''0'' \<or> hd k \<noteq> CHR ''0'')
     \<and> index_value k < 4294967295"

definition own_props :: "(string \<times> 'v) list \<Rightarrow> (string \<times> 'v) list" where
  "own_props obj =
     sort_key (\<lambda>kv. index_value (fst kv)) (filter (\<lambda>kv. is_array_index (fst kv)) obj)
     @ filter (\<lambda>kv. \<not> is_array_index (fst kv)) obj"

text \<open>A \<open>Set\<close> is the list of its elements in insertion order, without repetition.\<close>

definition set_add :: "'a \<Rightarrow> 'a list \<Rightarrow> 'a list" where
  "set_add x s = (if x \<in> set s then s else s @ [x])"

definition new_Set :: "'a list \<Rightarrow> 'a list" where
  "new_Set xs = fold set_add xs []"

text \<open>
  A lookup \<open>obj[key]\<close> in an object made by \<open>{}\<close> also finds what every object inherits
  from \<open>Object.prototype\<close>: a function, or for \<open>__proto__\<close> the prototype itself. The
  assignment \<open>obj['__proto__'] = v\<close> makes no own property (it goes to the inherited
  setter).
\<close>

definition object_prototype_names :: "string list" where
  "object_prototype_names =
     [''constructor'', ''__proto__'', ''hasOwnProperty'', ''isPrototypeOf'', ''propertyIsEnumerable'',
      ''toLocaleString'', ''toString'', ''valueOf'', ''__defineGetter__'', ''__defineSetter__'',
      ''__lookupGetter__'', ''__lookupSetter__'']"

datatype 'v property = Own 'v | Inherited | Absent

definition get_property :: "(string \<times> 'v) list \<Rightarrow> string \<Rightarrow> 'v property" where
  "get_property obj key =
     (case map_of obj key of
        Some v \<Rightarrow> Own v
      | None \<Rightarrow> if key \<in> set object_prototype_names then Inherited else Absent)"

definition set_property :: "string \<Rightarrow> 'v \<Rightarrow> (string \<times> 'v) list \<Rightarrow> (string \<times> 'v) list" where
  "set_property key v obj =
     (if key = ''__proto__'' \<and> map_of obj key = None then obj else AList.update key v obj)"

text \<open>An inherited member inside a template string.\<close>

definition inherited_text :: "string \<Rightarrow> string" where
  "inherited_text key =
     (if key = ''__proto__'' then ''[object Object]''
      else ''function '' @ (if key = ''constructor'' then ''Object'' else key) @ ''() { [native code] }'')"

section \<open>Numbers\<close>

text \<open>
  A JavaScript number is an IEEE 754 double: a finite value, \<open>NaN\<close>, or an infinity. A
  finite double is modelled by the real it denotes (negative zero is identified with zero:
  the modelled code divides by no zero that could be negative, and prints none), and every
  arithmetic operation rounds the exact result to the nearest double, a tie to the one with
  the even significand. A result beyond the largest double becomes an infinity.
\<close>

datatype number = Fin real | PosInfinity | NegInfinity | NaN

text \<open>
  The binary exponent of a real \<open>x \<noteq> 0\<close>: the \<open>e\<close> with \<open>2^e \<le> |x| < 2^(e+1)\<close>.
\<close>

definition binade :: "real \<Rightarrow> int" where
  "binade x =
     (let a = \<bar>x\<bar>
      in if 1 \<le> a then bitlen \<lfloor>a\<rfloor> - 1 else - bitlen (\<lceil>1 / a\<rceil> - 1))"

text \<open>The nearest integer, the even one of two that are equally near.\<close>

definition round_even :: "real \<Rightarrow> int" where
  "round_even y =
     (let f = \<lfloor>y\<rfloor>; d = y - of_int f
      in if d < 1 / 2 then f
         else if 1 / 2 < d then f + 1
         else if even f then f else f + 1)"

text \<open>
  The distance of neighbouring doubles around \<open>x\<close>: 53 significant bits, and a smallest
  exponent of -1022 (below it the doubles are subnormal).
\<close>

definition ulp :: "real \<Rightarrow> real" where
  "ulp x = 2 powi (max (binade x) (- 1022) - 52)"

definition nearest_double :: "real \<Rightarrow> real" where
  "nearest_double x = (if x = 0 then 0 else of_int (round_even (x / ulp x)) * ulp x)"

definition max_double :: real where
  "max_double = (2 ^ 53 - 1) * 2 ^ 971"

text \<open>The number a real rounds to; a number literal of the source denotes this number.\<close>

definition js :: "real \<Rightarrow> number" where
  "js x =
     (let r = nearest_double x
      in if max_double < r then PosInfinity
         else if r < - max_double then NegInfinity
         else Fin r)"

text \<open>The length of an array or a counter, which a double holds exactly.\<close>

definition number_of :: "nat \<Rightarrow> number" where
  "number_of n = Fin (real n)"

fun sign_of :: "number \<Rightarrow> int option" where
  "sign_of (Fin x) = Some (if 0 < x then 1 else if x < 0 then - 1 else 0)"
| "sign_of PosInfinity = Some 1"
| "sign_of NegInfinity = Some (- 1)"
| "sign_of NaN = None"

fun nneg :: "number \<Rightarrow> number" where
  "nneg (Fin x) = Fin (- x)"
| "nneg PosInfinity = NegInfinity"
| "nneg NegInfinity = PosInfinity"
| "nneg NaN = NaN"

text \<open>\<open>a + b\<close>, \<open>a - b\<close>, \<open>a * b\<close> and \<open>a / b\<close>.\<close>

fun nadd :: "number \<Rightarrow> number \<Rightarrow> number" where
  "nadd (Fin x) (Fin y) = js (x + y)"
| "nadd NaN b = NaN"
| "nadd a NaN = NaN"
| "nadd PosInfinity NegInfinity = NaN"
| "nadd NegInfinity PosInfinity = NaN"
| "nadd PosInfinity b = PosInfinity"
| "nadd NegInfinity b = NegInfinity"
| "nadd a PosInfinity = PosInfinity"
| "nadd a NegInfinity = NegInfinity"

definition nsub :: "number \<Rightarrow> number \<Rightarrow> number" where
  "nsub a b = nadd a (nneg b)"

text \<open>A product with an infinite factor: an infinity of the product's sign, \<open>NaN\<close> with a zero.\<close>

definition signed_infinity :: "number \<Rightarrow> number \<Rightarrow> number" where
  "signed_infinity a b =
     (case (sign_of a, sign_of b) of
        (Some sa, Some sb) \<Rightarrow>
          if sa * sb = 0 then NaN else if 0 < sa * sb then PosInfinity else NegInfinity
      | _ \<Rightarrow> NaN)"

fun nmul :: "number \<Rightarrow> number \<Rightarrow> number" where
  "nmul (Fin x) (Fin y) = js (x * y)"
| "nmul a b = signed_infinity a b"

fun ndiv :: "number \<Rightarrow> number \<Rightarrow> number" where
  "ndiv (Fin x) (Fin y) =
     (if y \<noteq> 0 then js (x / y)
      else if 0 < x then PosInfinity else if x < 0 then NegInfinity else NaN)"
| "ndiv NaN b = NaN"
| "ndiv a NaN = NaN"
| "ndiv (Fin x) b = Fin 0"
| "ndiv a (Fin y) = (if 0 \<le> y then a else nneg a)"
| "ndiv a b = NaN"

text \<open>The comparisons \<open>a < b\<close>, \<open>a > b\<close>, \<open>a <= b\<close>, \<open>a >= b\<close>: false when an operand is \<open>NaN\<close>.\<close>

fun nless :: "number \<Rightarrow> number \<Rightarrow> bool" where
  "nless (Fin x) (Fin y) = (x < y)"
| "nless NaN b = False"
| "nless a NaN = False"
| "nless PosInfinity b = False"
| "nless a NegInfinity = False"
| "nless a b = True"

definition ngreater :: "number \<Rightarrow> number \<Rightarrow> bool" where
  "ngreater a b = nless b a"

definition nle :: "number \<Rightarrow> number \<Rightarrow> bool" where
  "nle a b \<longleftrightarrow> nless a b \<or> (a = b \<and> a \<noteq> NaN)"

definition nge :: "number \<Rightarrow> number \<Rightarrow> bool" where
  "nge a b = nle b a"

text \<open>\<open>Math.min(a, b)\<close>.\<close>

definition nmin :: "number \<Rightarrow> number \<Rightarrow> number" where
  "nmin a b = (if a = NaN \<or> b = NaN then NaN else if nless b a then b else a)"

text \<open>A number in a condition: zero and \<open>NaN\<close> count as false.\<close>

definition truthy_number :: "number \<Rightarrow> bool" where
  "truthy_number n \<longleftrightarrow> n \<noteq> NaN \<and> n \<noteq> Fin 0"

text \<open>\<open>value === Math.round(value)\<close>: the value is an integer or an infinity.\<close>

fun is_round :: "number \<Rightarrow> bool" where
  "is_round (Fin x) = (of_int \<lfloor>x\<rfloor> = x)"
| "is_round NaN = False"
| "is_round a = True"

text \<open>
  \<open>Array.prototype.sort\<close> with a comparison function, as a stable insertion sort: an
  element goes before the first one that the comparison puts after it. A comparison
  result \<open>NaN\<close> counts as zero. (For a comparison that is no consistent order, JavaScript
  leaves the resulting order to the implementation.)
\<close>

fun insert_by :: "('a \<Rightarrow> 'a \<Rightarrow> number) \<Rightarrow> 'a \<Rightarrow> 'a list \<Rightarrow> 'a list" where
  "insert_by compare x [] = [x]"
| "insert_by compare x (y # ys) =
     (if ngreater (compare y x) (Fin 0) then x # y # ys else y # insert_by compare x ys)"

definition sort_by :: "('a \<Rightarrow> 'a \<Rightarrow> number) \<Rightarrow> 'a list \<Rightarrow> 'a list" where
  "sort_by compare xs = fold (insert_by compare) xs []"

text \<open>
  \<open>Math.sqrt\<close> and \<open>Math.pow\<close> are implementation-approximated in ECMAScript: the
  functions that use them take the library as a parameter.
\<close>

record math_library =
  Math_sqrt :: "number \<Rightarrow> number"
  Math_pow :: "number \<Rightarrow> number \<Rightarrow> number"

text \<open>What a confidence or a score is claimed to be: a finite number between two bounds.\<close>

definition in_range :: "real \<Rightarrow> real \<Rightarrow> number \<Rightarrow> bool" where
  "in_range lo hi n = (case n of Fin x \<Rightarrow> lo \<le> x \<and> x \<le> hi | _ \<Rightarrow> False)"

text \<open>A finite number that is not negative, or the positive infinity.\<close>

definition nonneg :: "number \<Rightarrow> bool" where
  "nonneg n = (case n of Fin x \<Rightarrow> 0 \<le> x | PosInfinity \<Rightarrow> True | _ \<Rightarrow> False)"

section \<open>Transactions\<close>

text \<open>
  \<open>inputs\<close> and \<open>outputs\<close> hold the \<open>address\<close> field of each entry of the arrays of
  the same name, and are \<open>None\<close> when the transaction has no such array.
  \<open>tx_timestamp\<close> is the instant \<open>new Date(tx.timestamp).getTime()\<close>, in milliseconds
  (a timestamp that does not parse is not modelled). \<open>tx_value\<close>, \<open>tx_gasPrice\<close> and
  \<open>tx_gasUsed\<close> hold a string such as \<open>10.5 ETH\<close>, a number, or nothing.
\<close>

datatype jsfield = Missing | Text string | Number number

record transaction =
  tx_hash :: jsval
  tx_timestamp :: int
  tx_from :: address
  tx_to :: address
  inputs :: "address list option"
  outputs :: "address list option"
  tx_value :: jsfield
  tx_gasPrice :: jsfield
  tx_gasUsed :: jsfield

definition getInputAddresses :: "transaction \<Rightarrow> address list" where
  "getInputAddresses transaction =
     (case inputs transaction of Some ins \<Rightarrow> ins | None \<Rightarrow> [tx_from transaction])"

definition getOutputAddresses :: "transaction \<Rightarrow> address list" where
  "getOutputAddresses transaction =
     (case outputs transaction of Some outs \<Rightarrow> outs | None \<Rightarrow> [tx_to transaction])"

section \<open>Clustering service\<close>

type_synonym clusters = "(string \<times> address list) list"

subsection \<open>Common-input ownership heuristic\<close>

text \<open>The ids of the clusters that hold one of the input addresses, in order of discovery.\<close>

definition existingClusters :: "clusters \<Rightarrow> address list \<Rightarrow> string list" where
  "existingClusters cls inputAddresses =
     fold (\<lambda>address existing.
             fold (\<lambda>(clusterId, members) ex.
                     if address \<in> set members then set_add clusterId ex else ex)
                  (own_props cls) existing)
          inputAddresses []"

definition members_of :: "clusters \<Rightarrow> string \<Rightarrow> address list" where
  "members_of cls clusterId = (case map_of cls clusterId of Some ms \<Rightarrow> ms | None \<Rightarrow> [])"

text \<open>The loop that merges the other touched clusters into the target and deletes them.\<close>

fun merge_clusters :: "string \<Rightarrow> string list \<Rightarrow> clusters \<Rightarrow> clusters" where
  "merge_clusters targetClusterId [] cls = cls"
| "merge_clusters targetClusterId (clusterId # rest) cls =
     merge_clusters targetClusterId rest
       (AList.delete clusterId
          (AList.map_entry targetClusterId (fold set_add (members_of cls clusterId)) cls))"

text \<open>The body of the loop over the transactions; the state is the clusters and the id counter.\<close>

definition cluster_tx :: "transaction \<Rightarrow> clusters \<times> nat \<Rightarrow> clusters \<times> nat" where
  "cluster_tx tx st =
     (let cls = fst st; clusterIdCounter = snd st;
          inputAddresses = getInputAddresses tx
      in if length inputAddresses \<le> 1 then st
         else (case existingClusters cls inputAddresses of
                 [] \<Rightarrow> (AList.update (''cluster_'' @ show_nat clusterIdCounter)
                                      (new_Set inputAddresses) cls,
                        clusterIdCounter + 1)
               | [clusterId] \<Rightarrow>
                   (AList.map_entry clusterId (fold set_add inputAddresses) cls, clusterIdCounter)
               | targetClusterId # others \<Rightarrow>
                   (merge_clusters targetClusterId others
                      (AList.map_entry targetClusterId (fold set_add inputAddresses) cls),
                    clusterIdCounter)))"

text \<open>The final copy of every set into an array of a fresh object.\<close>

definition sets_to_arrays :: "clusters \<Rightarrow> clusters" where
  "sets_to_arrays cls = fold (\<lambda>(clusterId, members). AList.update clusterId members) (own_props cls) []"

definition commonInputClustering :: "transaction list \<Rightarrow> clusters" where
  "commonInputClustering transactions = sets_to_arrays (fst (fold cluster_tx transactions ([], 1)))"

subsection \<open>Change address identification\<close>

definition isChangeAddressCandidate :: "transaction \<Rightarrow> bool" where
  "isChangeAddressCandidate transaction = True"

text \<open>\<open>findIndex\<close> stops at the first transaction with the hash of the current one.\<close>

definition hasAddressAppearedBefore :: "address \<Rightarrow> transaction \<Rightarrow> transaction list \<Rightarrow> bool" where
  "hasAddressAppearedBefore address currentTx allTransactions =
     (let previousTransactions = takeWhile (\<lambda>tx. tx_hash tx \<noteq> tx_hash currentTx) allTransactions
      in list_ex (\<lambda>tx. address \<in> set (getInputAddresses tx) \<or> address \<in> set (getOutputAddresses tx))
                 previousTransactions)"

text \<open>\<open>JSON.parse(JSON.stringify(clusters))\<close>: inside an array \<open>undefined\<close> becomes \<open>null\<close>.\<close>

fun json_value :: "jsval \<Rightarrow> jsval" where
  "json_value JUndefined = JNull"
| "json_value v = v"

definition json_clone :: "clusters \<Rightarrow> clusters" where
  "json_clone cls = map (\<lambda>(clusterId, members). (clusterId, map json_value members)) (own_props cls)"

definition change_tx :: "transaction list \<Rightarrow> transaction \<Rightarrow> clusters \<Rightarrow> clusters" where
  "change_tx transactions tx updatedClusters =
     (if \<not> isChangeAddressCandidate tx then updatedClusters
      else
        let inputAddresses = getInputAddresses tx;
            outputAddresses = getOutputAddresses tx;
            potentialChangeAddresses =
              filter (\<lambda>address. \<not> hasAddressAppearedBefore address tx transactions) outputAddresses
        in (case potentialChangeAddresses of
              [changeAddress] \<Rightarrow>
                (case find (\<lambda>(clusterId, cluster). list_ex (\<lambda>address. address \<in> set cluster) inputAddresses)
                           (own_props updatedClusters) of
                   Some (ownerClusterId, cluster) \<Rightarrow>
                     if ownerClusterId \<noteq> [] then
                       AList.map_entry ownerClusterId (\<lambda>c. c @ [changeAddress]) updatedClusters
                     else
                       AList.update (''cluster_'' @ show_nat (length updatedClusters + 1))
                                    (inputAddresses @ [changeAddress]) updatedClusters
                 | None \<Rightarrow>
                     AList.update (''cluster_'' @ show_nat (length updatedClusters + 1))
                                  (inputAddresses @ [changeAddress]) updatedClusters)
            | _ \<Rightarrow> updatedClusters))"

definition changeAddressIdentification :: "transaction list \<Rightarrow> clusters \<Rightarrow> clusters" where
  "changeAddressIdentification transactions cls =
     fold (change_tx transactions) transactions (json_clone cls)"

subsection \<open>Behavioral clustering\<close>

record features =
  transactionCount :: nat
  averageValue :: real
  timePattern :: "real list"
  gasPriceAvg :: real
  contractInteractions :: "string list"

text \<open>The clustering module's placeholder: every address gets the same features.\<close>

definition calculateBehavioralFeatures :: "address \<Rightarrow> transaction list \<Rightarrow> features" where
  "calculateBehavioralFeatures address transactions =
     \<lparr>transactionCount = 0, averageValue = 0, timePattern = [], gasPriceAvg = 0,
      contractInteractions = []\<rparr>"

text \<open>
  The module declares \<open>areFeaturesSimlar\<close>, and \<open>behavioralClustering\<close> calls
  \<open>areFeaturesSimilar\<close>, which no scope declares: evaluating the call throws a
  ReferenceError.
\<close>

definition areFeaturesSimlar :: "features \<Rightarrow> features \<Rightarrow> bool" where
  "areFeaturesSimlar features1 features2 = False"

definition areFeaturesSimilar :: "features \<Rightarrow> features \<Rightarrow> error + bool" where
  "areFeaturesSimilar features1 features2 = Inl (ReferenceError ''areFeaturesSimilar is not defined'')"

text \<open>The inner loop: the state is the clusters and the set of processed addresses.\<close>

fun find_similar ::
  "(address \<Rightarrow> features) \<Rightarrow> string \<Rightarrow> address \<Rightarrow> address list \<Rightarrow> clusters \<times> address list
   \<Rightarrow> error + clusters \<times> address list" where
  "find_similar addressFeatures newClusterId address [] st = Inr st"
| "find_similar addressFeatures newClusterId address (otherAddress # rest) st =
     (if address = otherAddress \<or> otherAddress \<in> set (snd st)
      then find_similar addressFeatures newClusterId address rest st
      else (case areFeaturesSimilar (addressFeatures address) (addressFeatures otherAddress) of
              Inl e \<Rightarrow> Inl e
            | Inr similar \<Rightarrow>
                if similar
                then find_similar addressFeatures newClusterId address rest
                       (AList.map_entry newClusterId (\<lambda>c. c @ [otherAddress]) (fst st),
                        set_add otherAddress (snd st))
                else find_similar addressFeatures newClusterId address rest st))"

text \<open>The outer loop: the state adds the id counter.\<close>

fun behavioral_loop ::
  "(address \<Rightarrow> features) \<Rightarrow> address list \<Rightarrow> address list \<Rightarrow> clusters \<times> nat \<times> address list
   \<Rightarrow> error + clusters \<times> nat \<times> address list" where
  "behavioral_loop addressFeatures addresses [] st = Inr st"
| "behavioral_loop addressFeatures addresses (address # rest) (cls, clusterIdCounter, processed) =
     (if address \<in> set processed
      then behavioral_loop addressFeatures addresses rest (cls, clusterIdCounter, processed)
      else
        let newClusterId = ''behavioral_cluster_'' @ show_nat clusterIdCounter
        in (case find_similar addressFeatures newClusterId address addresses
                   (AList.update newClusterId [address] cls, set_add address processed) of
              Inl e \<Rightarrow> Inl e
            | Inr (cls', processed') \<Rightarrow>
                behavioral_loop addressFeatures addresses rest
                  (cls', clusterIdCounter + 1, processed')))"

definition behavioralClustering :: "transaction list \<Rightarrow> address list \<Rightarrow> error + clusters" where
  "behavioralClustering transactions addresses =
     (case behavioral_loop (\<lambda>address. calculateBehavioralFeatures address transactions)
             addresses addresses ([], 1, []) of
        Inl e \<Rightarrow> Inl (Error (''Behavioral clustering failed: '' @ message e))
      | Inr (cls, _, _) \<Rightarrow> Inr cls)"

subsection \<open>Combined clustering\<close>

definition clusteredAddresses :: "clusters \<Rightarrow> address list" where
  "clusteredAddresses cls = fold (\<lambda>(clusterId, cluster) s. fold set_add cluster s) (own_props cls) []"

definition combinedClustering :: "transaction list \<Rightarrow> address list \<Rightarrow> error + clusters" where
  "combinedClustering transactions addresses =
     (let inputClusters = commonInputClustering transactions;
          updatedClusters = changeAddressIdentification transactions inputClusters;
          unclusteredAddresses =
            filter (\<lambda>address. address \<notin> set (clusteredAddresses updatedClusters)) addresses
      in if length unclusteredAddresses > 0
         then (case behavioralClustering transactions unclusteredAddresses of
                 Inl e \<Rightarrow> Inl (Error (''Combined clustering failed: '' @ message e))
               | Inr behavioralClusters \<Rightarrow>
                   Inr (fold (\<lambda>(clusterId, cluster). AList.update clusterId cluster)
                             (own_props behavioralClusters) updatedClusters))
         else Inr updatedClusters)"

section \<open>Entity service\<close>

text \<open>
  The in-memory entity service. Its state is the entity list, the index from lower-cased
  address to entity id, and what the module reads from its environment: the ids that
  \<open>uuidv4\<close> returns, call after call, and the time \<open>new Date().toISOString()\<close> shows.
\<close>

record entity =
  ent_id :: string
  ent_name :: string
  ent_type :: string
  ent_description :: string
  ent_addresses :: "address list"
  ent_totalBalance :: "string option"
  ent_confidenceScore :: number
  ent_createdAt :: string
  ent_updatedAt :: string

record store =
  entities :: "entity list"
  addressToEntityMap :: "(string \<times> string) list"
  uuids :: "nat \<Rightarrow> string"
  uuid_calls :: nat
  clock :: string

definition lower_char :: "char \<Rightarrow> char" where
  "lower_char c = (let n = of_char c :: nat in if 65 \<le> n \<and> n \<le> 90 then char_of (n + 32) else c)"

text \<open>\<open>address.toLowerCase()\<close>, on ASCII letters; it throws on a value that is no string.\<close>

fun toLowerCase :: "jsval \<Rightarrow> error + string" where
  "toLowerCase (JStr s) = Inr (map lower_char s)"
| "toLowerCase JUndefined =
     Inl (TypeError ''Cannot read properties of undefined (reading 'toLowerCase')'')"
| "toLowerCase JNull = Inl (TypeError ''Cannot read properties of null (reading 'toLowerCase')'')"
| "toLowerCase (JBool b) = Inl (TypeError ''address.toLowerCase is not a function'')"

text \<open>The three entities the module starts with, and the index built from them.\<close>

definition mock_entities :: "entity list" where
  "mock_entities =
     [\<lparr>ent_id = ''1'', ent_name = ''Binance'', ent_type = ''Exchange'',
       ent_description = ''Major cryptocurrency exchange'',
       ent_addresses = [JStr ''0x3f5CE5FBFe3E9af3971dD833D26bA9b5C936f0bE'',
                        JStr ''0xD551234Ae421e3BCBA99A0Da6d736074f22192FF''],
       ent_totalBalance = Some ''2,500,000 ETH'', ent_confidenceScore = js 0.95,
       ent_createdAt = ''2023-01-01T00:00:00Z'', ent_updatedAt = ''2023-03-01T00:00:00Z''\<rparr>,
      \<lparr>ent_id = ''2'', ent_name = ''Coinbase'', ent_type = ''Exchange'',
       ent_description = ''US-based cryptocurrency exchange'',
       ent_addresses = [JStr ''0x71660c4005BA85c37ccec55d0C4493E66Fe775d3'',
                        JStr ''0x503828976D22510aad0201ac7EC88293211D23Da''],
       ent_totalBalance = Some ''1,800,000 ETH'', ent_confidenceScore = js 0.98,
       ent_createdAt = ''2023-01-01T00:00:00Z'', ent_updatedAt = ''2023-03-01T00:00:00Z''\<rparr>,
      \<lparr>ent_id = ''3'', ent_name = ''Uniswap'', ent_type = ''DeFi Protocol'',
       ent_description = ''Decentralized exchange protocol'',
       ent_addresses = [JStr ''0x1f9840a85d5aF5bf1D1762F925BDADdC4201F984'',
                        JStr ''0x7a250d5630B4cF539739dF2C5dAcb4c659F2488D''],
       ent_totalBalance = Some ''350,000 ETH'', ent_confidenceScore = js 0.92,
       ent_createdAt = ''2023-01-01T00:00:00Z'', ent_updatedAt = ''2023-03-01T00:00:00Z''\<rparr>]"

text \<open>
  The loop \<open>addresses.forEach(address => addressToEntityMap[address.toLowerCase()] = id)\<close>:
  when \<open>toLowerCase\<close> throws, the entries written so far stay.
\<close>

fun index_addresses ::
  "string \<Rightarrow> address list \<Rightarrow> (string \<times> string) list \<Rightarrow> error option \<times> (string \<times> string) list" where
  "index_addresses entityId [] m = (None, m)"
| "index_addresses entityId (address # rest) m =
     (case toLowerCase address of
        Inl e \<Rightarrow> (Some e, m)
      | Inr key \<Rightarrow> index_addresses entityId rest (set_property key entityId m))"

definition initial_store :: "(nat \<Rightarrow> string) \<Rightarrow> string \<Rightarrow> store" where
  "initial_store ids now =
     \<lparr>entities = mock_entities,
      addressToEntityMap =
        fold (\<lambda>entity m. snd (index_addresses (ent_id entity) (ent_addresses entity) m)) mock_entities [],
      uuids = ids, uuid_calls = 0, clock = now\<rparr>"

definition getEntities :: "store \<Rightarrow> entity list" where
  "getEntities s = entities s"

definition getEntityById :: "store \<Rightarrow> string \<Rightarrow> error + entity" where
  "getEntityById s entityId =
     (case find (\<lambda>e. ent_id e = entityId) (entities s) of
        None \<Rightarrow> Inl (Error (''Unable to fetch entity: Entity with ID '' @ entityId @ '' not found''))
      | Some entity \<Rightarrow> Inr entity)"

text \<open>
  The index is a plain object. For an address whose lower-cased form names an inherited
  member (\<open>constructor\<close>, \<open>__proto__\<close>), the lookup yields that member, which is truthy and
  is the id of no entity: \<open>getEntityById\<close> throws.
\<close>

definition findEntityForAddress :: "store \<Rightarrow> address \<Rightarrow> error + entity option" where
  "findEntityForAddress s address =
     (case toLowerCase address of
        Inl e \<Rightarrow> Inl (Error (''Unable to find entity for address: '' @ message e))
      | Inr normalizedAddress \<Rightarrow>
          (case get_property (addressToEntityMap s) normalizedAddress of
             Absent \<Rightarrow> Inr None
           | Inherited \<Rightarrow>
               Inl (Error (''Unable to fetch entity: Entity with ID ''
                           @ inherited_text normalizedAddress @ '' not found''))
           | Own entityId \<Rightarrow>
               if entityId = [] then Inr None
               else (case getEntityById s entityId of
                       Inl e \<Rightarrow> Inl e
                     | Inr entity \<Rightarrow> Inr (Some entity))))"

record entity_data =
  data_name :: string
  data_type :: string
  data_description :: string
  data_addresses :: "address list"
  data_confidenceScore :: number

text \<open>
  \<open>createEntity\<close> pushes the entity before it indexes the addresses, so the state changes
  also when indexing throws.
\<close>

definition createEntity :: "store \<Rightarrow> entity_data \<Rightarrow> (error + entity) \<times> store" where
  "createEntity s entityData =
     (let newId = uuids s (uuid_calls s);
          now = clock s;
          newEntity =
            \<lparr>ent_id = newId, ent_name = data_name entityData, ent_type = data_type entityData,
             ent_description = data_description entityData,
             ent_addresses = data_addresses entityData, ent_totalBalance = None,
             ent_confidenceScore =
               (if truthy_number (data_confidenceScore entityData)
                then data_confidenceScore entityData else js 0.5),
             ent_createdAt = now, ent_updatedAt = now\<rparr>;
          s1 = s\<lparr>uuid_calls := uuid_calls s + 1, entities := entities s @ [newEntity]\<rparr>;
          (failure, m) = index_addresses newId (ent_addresses newEntity) (addressToEntityMap s1);
          s2 = s1\<lparr>addressToEntityMap := m\<rparr>
      in (case failure of
            Some e \<Rightarrow> (Inl (Error (''Unable to create entity: '' @ message e)), s2)
          | None \<Rightarrow> (Inr newEntity, s2)))"

text \<open>\<open>updateEntity\<close> with a patch that gives the \<open>addresses\<close>, as its only caller does.\<close>

definition find_index :: "('a \<Rightarrow> bool) \<Rightarrow> 'a list \<Rightarrow> nat option" where
  "find_index P xs = (if list_ex P xs then Some (length (takeWhile (\<lambda>x. \<not> P x) xs)) else None)"

definition updateEntity :: "store \<Rightarrow> string \<Rightarrow> address list \<Rightarrow> (error + entity) \<times> store" where
  "updateEntity s entityId newAddresses =
     (case find_index (\<lambda>e. ent_id e = entityId) (entities s) of
        None \<Rightarrow>
          (Inl (Error (''Unable to update entity: Entity with ID '' @ entityId @ '' not found'')), s)
      | Some entityIndex \<Rightarrow>
          let updatedEntity = (entities s ! entityIndex)
                \<lparr>ent_addresses := newAddresses, ent_id := entityId, ent_updatedAt := clock s\<rparr>;
              s1 = s\<lparr>entities := (entities s)[entityIndex := updatedEntity]\<rparr>;
              kept = filter (\<lambda>(address, owner). owner \<noteq> entityId) (addressToEntityMap s1);
              (failure, m) = index_addresses entityId (ent_addresses updatedEntity) kept;
              s2 = s1\<lparr>addressToEntityMap := m\<rparr>
          in (case failure of
                Some e \<Rightarrow> (Inl (Error (''Unable to update entity: '' @ message e)), s2)
              | None \<Rightarrow> (Inr updatedEntity, s2)))"

section \<open>Entity attribution service\<close>

record hit =
  hit_entityId :: string
  hit_entityName :: string
  hit_entityType :: string
  hit_matchedAddress :: address
  hit_confidenceBase :: number

record entity_group =
  grp_entityId :: string
  grp_entityName :: string
  grp_entityType :: string
  grp_attributions :: "hit list"
  grp_baseConfidence :: number

record consensus =
  con_entityId :: string
  con_entityName :: string
  con_entityType :: string
  con_confidence :: number
  con_matchedAddresses :: "address list"

text \<open>
  The grouping loop of \<open>calculateConsensusAttribution\<close>. For an entity id that names an
  inherited member, \<open>entityGroups[entityId]\<close> is that member: no group is made, the member
  has no \<open>attributions\<close>, and the \<open>push\<close> throws.
\<close>

definition group_hit :: "hit \<Rightarrow> (string \<times> entity_group) list \<Rightarrow> error + (string \<times> entity_group) list" where
  "group_hit attribution entityGroups =
     (let entityId = hit_entityId attribution
      in case get_property entityGroups entityId of
           Inherited \<Rightarrow> Inl (TypeError ''Cannot read properties of undefined (reading 'push')'')
         | found \<Rightarrow>
             let groups1 = (case found of
                              Absent \<Rightarrow>
                                set_property entityId
                                  \<lparr>grp_entityId = entityId, grp_entityName = hit_entityName attribution,
                                   grp_entityType = hit_entityType attribution, grp_attributions = [],
                                   grp_baseConfidence = hit_confidenceBase attribution\<rparr> entityGroups
                            | _ \<Rightarrow> entityGroups)
             in Inr (AList.map_entry entityId
                       (\<lambda>g. g\<lparr>grp_attributions := grp_attributions g @ [attribution]\<rparr>) groups1))"

fun group_hits :: "hit list \<Rightarrow> (string \<times> entity_group) list \<Rightarrow> error + (string \<times> entity_group) list" where
  "group_hits [] entityGroups = Inr entityGroups"
| "group_hits (attribution # rest) entityGroups =
     (case group_hit attribution entityGroups of
        Inl e \<Rightarrow> Inl e
      | Inr groups1 \<Rightarrow> group_hits rest groups1)"

text \<open>The search for the entity with the most attributions; a later group needs more to win.\<close>

definition best_group :: "(string \<times> entity_group) list \<Rightarrow> string option \<times> nat" where
  "best_group entityGroups =
     fold (\<lambda>(entityId, g) (bestEntityId, bestCount).
             if length (grp_attributions g) > bestCount
             then (Some entityId, length (grp_attributions g))
             else (bestEntityId, bestCount))
          (own_props entityGroups) (None, 0)"

text \<open>With no attribution there is no best entity, and reading its \<open>baseConfidence\<close> throws.\<close>

definition calculateConsensusAttribution :: "hit list \<Rightarrow> nat \<Rightarrow> error + consensus" where
  "calculateConsensusAttribution attributions totalAddresses =
     (case group_hits attributions [] of
        Inl e \<Rightarrow> Inl e
      | Inr entityGroups \<Rightarrow>
          let matchedAddresses = map hit_matchedAddress attributions;
              (bestEntityId, bestCount) = best_group entityGroups
          in (case bestEntityId of
                None \<Rightarrow> Inl (TypeError ''Cannot read properties of undefined (reading 'baseConfidence')'')
              | Some bestId \<Rightarrow>
                  (case map_of entityGroups bestId of
                     None \<Rightarrow> Inl (TypeError ''Cannot read properties of undefined (reading 'baseConfidence')'')
                   | Some bestEntity \<Rightarrow>
                       let coverageScore = ndiv (number_of bestCount) (number_of totalAddresses);
                           baseConfidence = grp_baseConfidence bestEntity;
                           consensusStrength = ndiv (number_of bestCount) (number_of (length attributions));
                           confidence = nadd (nadd (nmul coverageScore (js 0.3))
                                                   (nmul baseConfidence (js 0.4)))
                                             (nmul consensusStrength (js 0.3))
                       in Inr \<lparr>con_entityId = bestId, con_entityName = grp_entityName bestEntity,
                               con_entityType = grp_entityType bestEntity,
                               con_confidence = nmin (js 0.99) confidence,
                               con_matchedAddresses = new_Set matchedAddresses\<rparr>)))"

text \<open>The loop that looks every address up; the first lookup that throws ends it.\<close>

fun collect_hits :: "store \<Rightarrow> address list \<Rightarrow> error + hit list" where
  "collect_hits s [] = Inr []"
| "collect_hits s (address # rest) =
     (case findEntityForAddress s address of
        Inl e \<Rightarrow> Inl e
      | Inr found \<Rightarrow>
          (case collect_hits s rest of
             Inl e \<Rightarrow> Inl e
           | Inr hits \<Rightarrow>
               (case found of
                  None \<Rightarrow> Inr hits
                | Some entity \<Rightarrow>
                    Inr (\<lparr>hit_entityId = ent_id entity, hit_entityName = ent_name entity,
                          hit_entityType = ent_type entity, hit_matchedAddress = address,
                          hit_confidenceBase = ent_confidenceScore entity\<rparr> # hits))))"

record attribution =
  att_entityId :: "string option"
  att_entityName :: string
  att_entityType :: string
  att_confidence :: number
  att_addresses :: "address list"
  att_matchedAddresses :: "address list"

definition attribute_cluster :: "store \<Rightarrow> address list \<Rightarrow> error + attribution" where
  "attribute_cluster s clusterAddresses =
     (case collect_hits s clusterAddresses of
        Inl e \<Rightarrow> Inl e
      | Inr attributions \<Rightarrow>
          if length attributions > 0
          then (case calculateConsensusAttribution attributions (length clusterAddresses) of
                  Inl e \<Rightarrow> Inl e
                | Inr a \<Rightarrow>
                    Inr \<lparr>att_entityId = Some (con_entityId a), att_entityName = con_entityName a,
                         att_entityType = con_entityType a, att_confidence = con_confidence a,
                         att_addresses = clusterAddresses,
                         att_matchedAddresses = con_matchedAddresses a\<rparr>)
          else Inr \<lparr>att_entityId = None, att_entityName = ''Unknown'', att_entityType = ''Unknown'',
                    att_confidence = Fin 0, att_addresses = clusterAddresses,
                    att_matchedAddresses = []\<rparr>)"

fun attribute_loop ::
  "store \<Rightarrow> clusters \<Rightarrow> (string \<times> attribution) list \<Rightarrow> error + (string \<times> attribution) list" where
  "attribute_loop s [] attributionResults = Inr attributionResults"
| "attribute_loop s ((clusterId, clusterAddresses) # rest) attributionResults =
     (case attribute_cluster s clusterAddresses of
        Inl e \<Rightarrow> Inl e
      | Inr a \<Rightarrow> attribute_loop s rest (set_property clusterId a attributionResults))"

definition attributeClusters :: "store \<Rightarrow> clusters \<Rightarrow> error + (string \<times> attribution) list" where
  "attributeClusters s cls =
     (let entities = getEntities s
      in case attribute_loop s (own_props cls) [] of
           Inl e \<Rightarrow> Inl (Error (''Cluster attribution failed: '' @ message e))
         | Inr attributionResults \<Rightarrow> Inr attributionResults)"

subsection \<open>Attribution of one address\<close>

text \<open>The attribution module's own placeholder counts the transactions.\<close>

definition attribution_calculateBehavioralFeatures :: "address \<Rightarrow> transaction list \<Rightarrow> features" where
  "attribution_calculateBehavioralFeatures address transactions =
     \<lparr>transactionCount = length transactions, averageValue = 0, timePattern = [],
      gasPriceAvg = 0, contractInteractions = []\<rparr>"

definition calculateInteractionScore :: "address \<Rightarrow> address list \<Rightarrow> transaction list \<Rightarrow> number" where
  "calculateInteractionScore address entityAddresses transactions =
     (let interactionCount =
            length (filter (\<lambda>tx. (tx_from tx = address \<and> tx_to tx \<in> set entityAddresses)
                                 \<or> (tx_to tx = address \<and> tx_from tx \<in> set entityAddresses))
                           transactions);
          interactionRatio = (if length transactions > 0
                              then ndiv (number_of interactionCount) (number_of (length transactions))
                              else Fin 0)
      in nmin (js 0.95) (nmul interactionRatio (js 1.5)))"

record behavioral_attribution =
  beh_entityId :: string
  beh_entityName :: string
  beh_entityType :: string
  beh_confidence :: number

text \<open>The body of the loop over the entities: the best entity and its score so far.\<close>

definition behavior_step ::
  "address \<Rightarrow> transaction list \<Rightarrow> entity \<Rightarrow> entity option \<times> number \<Rightarrow> entity option \<times> number" where
  "behavior_step address transactions entity best =
     (if ent_addresses entity = [] then best
      else
        let interactionScore = calculateInteractionScore address (ent_addresses entity) transactions;
            patternScore = js 0.3;
            score = nadd (nmul interactionScore (js 0.7)) (nmul patternScore (js 0.3))
        in if ngreater score (snd best) \<and> ngreater score (js 0.5) then (Some entity, score)
           else best)"

definition attributeByBehavior :: "store \<Rightarrow> address \<Rightarrow> transaction list \<Rightarrow> behavioral_attribution option" where
  "attributeByBehavior s address transactions =
     (let addressFeatures = attribution_calculateBehavioralFeatures address transactions;
          (bestMatchEntity, bestMatchScore) =
            fold (behavior_step address transactions) (getEntities s) (None, Fin 0)
      in (case bestMatchEntity of
            Some entity \<Rightarrow>
              Some \<lparr>beh_entityId = ent_id entity, beh_entityName = ent_name entity,
                    beh_entityType = ent_type entity, beh_confidence = bestMatchScore\<rparr>
          | None \<Rightarrow> None))"

record address_attribution =
  aa_entityId :: "string option"
  aa_entityName :: string
  aa_entityType :: string
  aa_confidence :: number
  aa_attributionMethod :: string
  aa_relatedAddresses :: "address list option"
  aa_matchedAddresses :: "address list option"

text \<open>Step 3: the other addresses of the first cluster that holds the address.\<close>

definition relatedAddresses_of :: "address \<Rightarrow> transaction list \<Rightarrow> error + address list" where
  "relatedAddresses_of address addressTransactions =
     (if length addressTransactions > 0
      then
        let addresses = fold (\<lambda>tx seen. fold set_add (getInputAddresses tx @ getOutputAddresses tx) seen)
                             addressTransactions []
        in (case combinedClustering addressTransactions addresses of
              Inl e \<Rightarrow> Inl e
            | Inr cls \<Rightarrow>
                (case find (\<lambda>(clusterId, cluster). address \<in> set cluster) (own_props cls) of
                   Some (clusterId, cluster) \<Rightarrow> Inr (filter (\<lambda>addr. addr \<noteq> address) cluster)
                 | None \<Rightarrow> Inr []))
      else Inr [])"

definition attributeAddress_body :: "store \<Rightarrow> address \<Rightarrow> transaction list \<Rightarrow> error + address_attribution" where
  "attributeAddress_body s address transactions =
     (case findEntityForAddress s address of
        Inl e \<Rightarrow> Inl e
      | Inr (Some knownEntity) \<Rightarrow>
          Inr \<lparr>aa_entityId = Some (ent_id knownEntity), aa_entityName = ent_name knownEntity,
               aa_entityType = ent_type knownEntity, aa_confidence = ent_confidenceScore knownEntity,
               aa_attributionMethod = ''direct_match'', aa_relatedAddresses = None,
               aa_matchedAddresses = None\<rparr>
      | Inr None \<Rightarrow>
          let addressTransactions = transactions
          in (case relatedAddresses_of address addressTransactions of
                Inl e \<Rightarrow> Inl e
              | Inr relatedAddresses \<Rightarrow>
                  (case collect_hits s relatedAddresses of
                     Inl e \<Rightarrow> Inl e
                   | Inr attributions \<Rightarrow>
                       if length attributions > 0
                       then (case calculateConsensusAttribution attributions (length relatedAddresses) of
                               Inl e \<Rightarrow> Inl e
                             | Inr a \<Rightarrow>
                                 Inr \<lparr>aa_entityId = Some (con_entityId a),
                                      aa_entityName = con_entityName a,
                                      aa_entityType = con_entityType a,
                                      aa_confidence = con_confidence a,
                                      aa_attributionMethod = ''cluster_analysis'',
                                      aa_relatedAddresses = Some relatedAddresses,
                                      aa_matchedAddresses = Some (con_matchedAddresses a)\<rparr>)
                       else
                         (case attributeByBehavior s address addressTransactions of
                            Some b \<Rightarrow>
                              if ngreater (beh_confidence b) (js 0.5)
                              then Inr \<lparr>aa_entityId = Some (beh_entityId b),
                                        aa_entityName = beh_entityName b,
                                        aa_entityType = beh_entityType b,
                                        aa_confidence = beh_confidence b,
                                        aa_attributionMethod = ''behavioral_analysis'',
                                        aa_relatedAddresses = None, aa_matchedAddresses = None\<rparr>
                              else Inr \<lparr>aa_entityId = None, aa_entityName = ''Unknown'',
                                        aa_entityType = ''Unknown'', aa_confidence = Fin 0,
                                        aa_attributionMethod = ''none'',
                                        aa_relatedAddresses = None, aa_matchedAddresses = None\<rparr>
                          | None \<Rightarrow>
                              Inr \<lparr>aa_entityId = None, aa_entityName = ''Unknown'',
                                   aa_entityType = ''Unknown'', aa_confidence = Fin 0,
                                   aa_attributionMethod = ''none'',
                                   aa_relatedAddresses = None, aa_matchedAddresses = None\<rparr>))))"

definition attributeAddress :: "store \<Rightarrow> address \<Rightarrow> transaction list \<Rightarrow> error + address_attribution" where
  "attributeAddress s address transactions =
     (case attributeAddress_body s address transactions of
        Inl e \<Rightarrow> Inl (Error (''Address attribution failed: '' @ message e))
      | Inr a \<Rightarrow> Inr a)"

subsection \<open>Entity updates from attributions\<close>

record updated_entry =
  upd_clusterId :: string
  upd_entityId :: string
  upd_entityName :: string
  upd_addressesAdded :: "address list"

record created_entry =
  cre_clusterId :: string
  cre_entityId :: string
  cre_entityName :: string
  cre_addressCount :: nat

record skipped_entry =
  skp_clusterId :: string
  skp_reason :: string
  skp_entityId :: "string option"
  skp_confidence :: "number option"
  skp_addressCount :: "nat option"
  skp_error :: "string option"

record update_results =
  updated :: "updated_entry list"
  created :: "created_entry list"
  skipped :: "skipped_entry list"

definition skip :: "string \<Rightarrow> string \<Rightarrow> skipped_entry" where
  "skip clusterId reason =
     \<lparr>skp_clusterId = clusterId, skp_reason = reason, skp_entityId = None, skp_confidence = None,
      skp_addressCount = None, skp_error = None\<rparr>"

text \<open>The entity that is proposed for a cluster without attribution.\<close>

definition cluster_entity_data :: "string \<Rightarrow> attribution \<Rightarrow> entity_data" where
  "cluster_entity_data clusterId attribution =
     \<lparr>data_name = ''Cluster '' @ clusterId, data_type = ''Unknown'',
      data_description = ''Automatically identified address cluster'',
      data_addresses = att_addresses attribution, data_confidenceScore = js 0.6\<rparr>"

text \<open>\<open>if (attribution.entityId)\<close> fails.\<close>

definition no_entity :: "attribution \<Rightarrow> bool" where
  "no_entity a \<longleftrightarrow> att_entityId a = None \<or> att_entityId a = Some []"

text \<open>The branch that extends an existing entity, with its \<open>try ... catch\<close>.\<close>

definition update_existing ::
  "string \<Rightarrow> string \<Rightarrow> attribution \<Rightarrow> update_results \<times> store \<Rightarrow> update_results \<times> store" where
  "update_existing clusterId entityId attribution st =
     (let updateResults = fst st; s = snd st
      in case getEntityById s entityId of
           Inl e \<Rightarrow>
             (updateResults\<lparr>skipped := skipped updateResults
                @ [(skip clusterId ''update_error'')\<lparr>skp_entityId := Some entityId,
                                                    skp_error := Some (message e)\<rparr>]\<rparr>, s)
         | Inr entity \<Rightarrow>
             let newAddresses = filter (\<lambda>addr. addr \<notin> set (ent_addresses entity))
                                       (att_addresses attribution)
             in if length newAddresses = 0
                then (updateResults\<lparr>skipped := skipped updateResults
                        @ [(skip clusterId ''no_new_addresses'')\<lparr>skp_entityId := Some entityId\<rparr>]\<rparr>, s)
                else
                  (case updateEntity s entityId (ent_addresses entity @ newAddresses) of
                     (Inl e, s') \<Rightarrow>
                       (updateResults\<lparr>skipped := skipped updateResults
                          @ [(skip clusterId ''update_error'')\<lparr>skp_entityId := Some entityId,
                                                              skp_error := Some (message e)\<rparr>]\<rparr>, s')
                   | (Inr updatedEntity, s') \<Rightarrow>
                       (updateResults\<lparr>updated := updated updateResults
                          @ [\<lparr>upd_clusterId = clusterId, upd_entityId = entityId,
                              upd_entityName = ent_name updatedEntity,
                              upd_addressesAdded = newAddresses\<rparr>]\<rparr>, s')))"

text \<open>The branches for an attribution without entity id.\<close>

definition update_unattributed ::
  "string \<Rightarrow> attribution \<Rightarrow> update_results \<times> store \<Rightarrow> update_results \<times> store" where
  "update_unattributed clusterId attribution st =
     (let updateResults = fst st; s = snd st
      in if length (att_addresses attribution) \<ge> 3
         then
           (case createEntity s (cluster_entity_data clusterId attribution) of
              (Inl e, s') \<Rightarrow>
                (updateResults\<lparr>skipped := skipped updateResults
                   @ [(skip clusterId ''creation_error'')\<lparr>skp_error := Some (message e)\<rparr>]\<rparr>, s')
            | (Inr newEntity, s') \<Rightarrow>
                (updateResults\<lparr>created := created updateResults
                   @ [\<lparr>cre_clusterId = clusterId, cre_entityId = ent_id newEntity,
                       cre_entityName = ent_name newEntity,
                       cre_addressCount = length (att_addresses attribution)\<rparr>]\<rparr>, s'))
         else (updateResults\<lparr>skipped := skipped updateResults
                 @ [(skip clusterId ''small_unattributed_cluster'')
                      \<lparr>skp_addressCount := Some (length (att_addresses attribution))\<rparr>]\<rparr>, s))"

text \<open>
  The body of the loop over the attribution results. The confidence test comes first;
  \<open>if (attribution.entityId)\<close> fails for \<open>null\<close> and for the empty string.
\<close>

definition update_cluster ::
  "number \<Rightarrow> string \<times> attribution \<Rightarrow> update_results \<times> store \<Rightarrow> update_results \<times> store" where
  "update_cluster confidenceThreshold entry st =
     (let clusterId = fst entry; attribution = snd entry; updateResults = fst st; s = snd st
      in if nless (att_confidence attribution) confidenceThreshold
         then (updateResults\<lparr>skipped := skipped updateResults
                 @ [(skip clusterId ''low_confidence'')\<lparr>skp_confidence := Some (att_confidence attribution)\<rparr>]\<rparr>, s)
         else (case att_entityId attribution of
                 Some entityId \<Rightarrow>
                   if entityId \<noteq> [] then update_existing clusterId entityId attribution st
                   else update_unattributed clusterId attribution st
               | None \<Rightarrow> update_unattributed clusterId attribution st))"

definition updateEntitiesWithAttributions ::
  "store \<Rightarrow> (string \<times> attribution) list \<Rightarrow> number \<Rightarrow> update_results \<times> store" where
  "updateEntitiesWithAttributions s attributionResults confidenceThreshold =
     fold (update_cluster confidenceThreshold) (own_props attributionResults)
          (\<lparr>updated = [], created = [], skipped = []\<rparr>, s)"

section \<open>Identification service\<close>

definition extractUniqueAddresses :: "transaction list \<Rightarrow> address list" where
  "extractUniqueAddresses transactions =
     fold (\<lambda>tx addressSet.
             let s1 = (if truthy (tx_from tx) then set_add (tx_from tx) addressSet else addressSet);
                 s2 = (if truthy (tx_to tx) then set_add (tx_to tx) s1 else s1);
                 s3 = (case inputs tx of
                         Some ins \<Rightarrow> fold (\<lambda>a acc. if truthy a then set_add a acc else acc) ins s2
                       | None \<Rightarrow> s2)
             in (case outputs tx of
                   Some outs \<Rightarrow> fold (\<lambda>a acc. if truthy a then set_add a acc else acc) outs s3
                 | None \<Rightarrow> s3))
          transactions []"

record identify_options =
  updateEntities :: jsval
  confidenceThreshold :: "number option"

text \<open>\<open>options.confidenceThreshold || 0.8\<close>: an absent, zero or \<open>NaN\<close> threshold gives 0.8.\<close>

definition threshold_of :: "identify_options \<Rightarrow> number" where
  "threshold_of options =
     (case confidenceThreshold options of
        None \<Rightarrow> js 0.8
      | Some t \<Rightarrow> if truthy_number t then t else js 0.8)"

record identification_results =
  res_transactionCount :: nat
  res_addressCount :: nat
  res_clusterCount :: nat
  res_clusters :: clusters
  res_attributions :: "(string \<times> attribution) list"
  res_updates :: "update_results option"

definition identifyEntitiesFromTransactions ::
  "store \<Rightarrow> transaction list \<Rightarrow> identify_options \<Rightarrow> (error + identification_results) \<times> store" where
  "identifyEntitiesFromTransactions s transactions options =
     (let addresses = extractUniqueAddresses transactions
      in case combinedClustering transactions addresses of
           Inl e \<Rightarrow> (Inl (Error (''Entity identification failed: '' @ message e)), s)
         | Inr cls \<Rightarrow>
             let clusterCount = length cls
             in (case attributeClusters s cls of
                   Inl e \<Rightarrow> (Inl (Error (''Entity identification failed: '' @ message e)), s)
                 | Inr attributionResults \<Rightarrow>
                     let shouldUpdateEntities = (updateEntities options \<noteq> JBool False);
                         (updateResults, s') =
                           (if shouldUpdateEntities
                            then
                              let threshold = threshold_of options;
                                  (r, s1) = updateEntitiesWithAttributions s attributionResults threshold
                              in (Some r, s1)
                            else (None, s))
                     in (Inr \<lparr>res_transactionCount = length transactions,
                              res_addressCount = length addresses,
                              res_clusterCount = clusterCount,
                              res_clusters = cls,
                              res_attributions = attributionResults,
                              res_updates = updateResults\<rparr>, s')))"

record identification =
  idn_address :: address
  idn_entityId :: "string option"
  idn_entityName :: string
  idn_entityType :: string
  idn_confidence :: number
  idn_method :: string
  idn_analysisPerformed :: bool
  idn_transactionsAnalyzed :: "nat option"
  idn_relatedAddresses :: "address list option"
  idn_matchedAddresses :: "address list option"

definition identifyAddressEntity :: "store \<Rightarrow> address \<Rightarrow> jsval \<Rightarrow> error + identification" where
  "identifyAddressEntity s address performAnalysis =
     (case findEntityForAddress s address of
        Inl e \<Rightarrow> Inl (Error (''Address entity identification failed: '' @ message e))
      | Inr (Some knownEntity) \<Rightarrow>
          Inr \<lparr>idn_address = address, idn_entityId = Some (ent_id knownEntity),
               idn_entityName = ent_name knownEntity, idn_entityType = ent_type knownEntity,
               idn_confidence = ent_confidenceScore knownEntity, idn_method = ''existing_entry'',
               idn_analysisPerformed = False, idn_transactionsAnalyzed = None,
               idn_relatedAddresses = None, idn_matchedAddresses = None\<rparr>
      | Inr None \<Rightarrow>
          let shouldAnalyze = (performAnalysis \<noteq> JBool False)
          in if shouldAnalyze
             then
               let transactions = []
               in (case attributeAddress s address transactions of
                     Inl e \<Rightarrow> Inl (Error (''Address entity identification failed: '' @ message e))
                   | Inr a \<Rightarrow>
                       Inr \<lparr>idn_address = address, idn_entityId = aa_entityId a,
                            idn_entityName = aa_entityName a, idn_entityType = aa_entityType a,
                            idn_confidence = aa_confidence a, idn_method = aa_attributionMethod a,
                            idn_analysisPerformed = True,
                            idn_transactionsAnalyzed = Some (length transactions),
                            idn_relatedAddresses = aa_relatedAddresses a,
                            idn_matchedAddresses = aa_matchedAddresses a\<rparr>)
             else Inr \<lparr>idn_address = address, idn_entityId = None, idn_entityName = ''Unknown'',
                       idn_entityType = ''Unknown'', idn_confidence = Fin 0, idn_method = ''none'',
                       idn_analysisPerformed = False, idn_transactionsAnalyzed = None,
                       idn_relatedAddresses = None, idn_matchedAddresses = None\<rparr>)"

section \<open>Risk scoring service\<close>

record risk_weights =
  mixerInteraction :: number
  sanctionedEntity :: number
  darknetInteraction :: number
  highRiskExchange :: number
  unusualActivityPattern :: number
  newAddress :: number
  highValueTransfers :: number
  rapidFundMovement :: number
  manyHops :: number
  lowTransparencyEntity :: number

definition RISK_WEIGHTS :: risk_weights where
  "RISK_WEIGHTS =
     \<lparr>mixerInteraction = js 0.8, sanctionedEntity = js 0.9, darknetInteraction = js 0.7,
      highRiskExchange = js 0.6, unusualActivityPattern = js 0.5, newAddress = js 0.4,
      highValueTransfers = js 0.5, rapidFundMovement = js 0.6, manyHops = js 0.4,
      lowTransparencyEntity = js 0.5\<rparr>"

definition ENTITY_TYPE_RISK :: "(string \<times> number) list" where
  "ENTITY_TYPE_RISK =
     [(''Mixer'', js 0.9), (''DarknetMarket'', js 0.9), (''Sanctioned'', js 1.0),
      (''HighRiskExchange'', js 0.7), (''Exchange'', js 0.2), (''DeFi Protocol'', js 0.3),
      (''Token'', js 0.2), (''Wallet'', js 0.2), (''Unknown'', js 0.5)]"

record entity_info =
  info_entityId :: "string option"
  info_entityName :: string
  info_entityType :: string
  info_confidence :: number

record risk_factor =
  rf_score :: number
  rf_description :: string

definition hasMixerInteractions :: "address \<Rightarrow> transaction list \<Rightarrow> bool" where
  "hasMixerInteractions address transactions = False"

definition hasDarknetInteractions :: "address \<Rightarrow> transaction list \<Rightarrow> bool" where
  "hasDarknetInteractions address transactions = False"

definition hasUnusualActivityPattern :: "address \<Rightarrow> transaction list \<Rightarrow> bool" where
  "hasUnusualActivityPattern address transactions = False"

text \<open>\<open>nowMs\<close> is \<open>Date.now()\<close>. The earliest transaction decides; a day has 86400000 ms.\<close>

definition isNewAddress :: "int \<Rightarrow> address \<Rightarrow> transaction list \<Rightarrow> bool" where
  "isNewAddress nowMs address transactions =
     (case transactions of
        [] \<Rightarrow> True
      | tx # rest \<Rightarrow>
          let firstTx = fold (\<lambda>t earliest. if tx_timestamp t < earliest then tx_timestamp t else earliest)
                             rest (tx_timestamp tx);
              ageInDays = ndiv (nsub (Fin (real_of_int nowMs)) (Fin (real_of_int firstTx)))
                               (Fin (1000 * 60 * 60 * 24))
          in nless ageInDays (Fin 30))"

definition hasHighValueTransfers :: "address \<Rightarrow> transaction list \<Rightarrow> bool" where
  "hasHighValueTransfers address transactions = False"

definition hasRapidFundMovement :: "address \<Rightarrow> transaction list \<Rightarrow> bool" where
  "hasRapidFundMovement address transactions = False"

definition hasManyHops :: "address \<Rightarrow> transaction list \<Rightarrow> bool" where
  "hasManyHops address transactions = False"

definition isLowTransparencyEntity :: "entity_info \<Rightarrow> bool" where
  "isLowTransparencyEntity entityInfo \<longleftrightarrow>
     info_entityType entityInfo = ''Unknown'' \<or> nless (info_confidence entityInfo) (js 0.3)"

definition add_factor :: "bool \<Rightarrow> string \<Rightarrow> number \<Rightarrow> string \<Rightarrow> (string \<times> risk_factor) list
    \<Rightarrow> (string \<times> risk_factor) list" where
  "add_factor detected name weight text factors =
     (if detected then AList.update name \<lparr>rf_score = weight, rf_description = text\<rparr> factors
      else factors)"

definition detectRiskFactors ::
  "int \<Rightarrow> address \<Rightarrow> transaction list \<Rightarrow> entity_info \<Rightarrow> (string \<times> risk_factor) list" where
  "detectRiskFactors nowMs address transactions entityInfo =
     (add_factor (isLowTransparencyEntity entityInfo) ''lowTransparencyEntity''
        (lowTransparencyEntity RISK_WEIGHTS) ''Associated with entity having low transparency''
      (add_factor (hasManyHops address transactions) ''manyHops''
        (manyHops RISK_WEIGHTS) ''Funds moving through many hops in short timeframe''
      (add_factor (hasRapidFundMovement address transactions) ''rapidFundMovement''
        (rapidFundMovement RISK_WEIGHTS) ''Rapid movement of funds through multiple addresses''
      (add_factor (hasHighValueTransfers address transactions) ''highValueTransfers''
        (highValueTransfers RISK_WEIGHTS) ''High-value transfers detected''
      (add_factor (isNewAddress nowMs address transactions) ''newAddress''
        (newAddress RISK_WEIGHTS) ''Recently created address with limited history''
      (add_factor (hasUnusualActivityPattern address transactions) ''unusualActivityPattern''
        (unusualActivityPattern RISK_WEIGHTS) ''Unusual transaction patterns detected''
      (add_factor (info_entityType entityInfo = ''HighRiskExchange'') ''highRiskExchange''
        (highRiskExchange RISK_WEIGHTS) ''Address belongs to a high-risk exchange with weak KYC''
      (add_factor (info_entityType entityInfo = ''DarknetMarket'' \<or> hasDarknetInteractions address transactions)
        ''darknetInteraction''
        (darknetInteraction RISK_WEIGHTS) ''Interaction with darknet markets detected''
      (add_factor (info_entityType entityInfo = ''Sanctioned'') ''sanctionedEntity''
        (sanctionedEntity RISK_WEIGHTS) ''Address belongs to a sanctioned entity''
      (add_factor (info_entityType entityInfo = ''Mixer'' \<or> hasMixerInteractions address transactions)
        ''mixerInteraction''
        (mixerInteraction RISK_WEIGHTS) ''Interaction with cryptocurrency mixing services detected''
        []))))))))))"

record significant_factor =
  sf_type :: string
  sf_score :: number
  sf_description :: string

record risk_details =
  score :: number
  significantFactors :: "significant_factor list"

text \<open>
  \<open>ENTITY_TYPE_RISK[entityType] || ENTITY_TYPE_RISK.Unknown\<close>. The table is a plain
  object: for an entity type that names an inherited member the lookup yields that member,
  a function or an object, which is truthy; its product with the confidence is \<open>NaN\<close>,
  as is the product of \<open>NaN\<close> with the confidence.
\<close>

definition entity_type_risk :: "string \<Rightarrow> number" where
  "entity_type_risk entityType =
     (if entityType \<noteq> []
      then (case get_property ENTITY_TYPE_RISK entityType of
              Own r \<Rightarrow> if truthy_number r then r else js 0.5
            | Inherited \<Rightarrow> NaN
            | Absent \<Rightarrow> js 0.5)
      else js 0.5)"

text \<open>The loop over the risk factors: the sum of the scores and the largest score.\<close>

definition factor_step :: "string \<times> risk_factor \<Rightarrow> number \<times> number \<Rightarrow> number \<times> number" where
  "factor_step entry acc =
     (nadd (fst acc) (rf_score (snd entry)),
      if ngreater (rf_score (snd entry)) (snd acc) then rf_score (snd entry) else snd acc)"

definition calculateRiskScore :: "(string \<times> risk_factor) list \<Rightarrow> entity_info \<Rightarrow> risk_details" where
  "calculateRiskScore riskFactors entityInfo =
     (let entityTypeRisk = entity_type_risk (info_entityType entityInfo);
          score0 = nmin (js 0.7) (nmul entityTypeRisk (info_confidence entityInfo));
          factorCount = length riskFactors;
          (factorScore, maxFactorScore) = fold factor_step (own_props riskFactors) (Fin 0, Fin 0);
          normalizedFactorScore =
            (if factorCount > 0
             then nadd (nmul (ndiv factorScore (number_of factorCount)) (js 0.7))
                       (nmul maxFactorScore (js 0.3))
             else Fin 0);
          score1 = nadd score0 (nmul (nsub (Fin 1) score0) normalizedFactorScore);
          score2 = nmin (js 0.95) score1
      in \<lparr>score = score2,
          significantFactors =
            sort_by (\<lambda>a b. nsub (sf_score b) (sf_score a))
              (map (\<lambda>(key, v). \<lparr>sf_type = key, sf_score = rf_score v, sf_description = rf_description v\<rparr>)
                   (own_props riskFactors))\<rparr>)"

definition riskLevelFromScore :: "number \<Rightarrow> string" where
  "riskLevelFromScore sc =
     (if nge sc (js 0.8) then ''Very High''
      else if nge sc (js 0.6) then ''High''
      else if nge sc (js 0.4) then ''Medium''
      else if nge sc (js 0.2) then ''Low''
      else ''Very Low'')"

text \<open>\<open>ra_lastUpdated\<close> is the instant of the call (its ISO rendering is not modelled).\<close>

record risk_assessment =
  ra_address :: address
  ra_entityId :: "string option"
  ra_entityName :: string
  ra_entityType :: string
  ra_riskScore :: number
  ra_riskLevel :: string
  ra_riskFactors :: "significant_factor list"
  ra_transactionCount :: nat
  ra_lastUpdated :: int

text \<open>Step 1 of \<open>calculateAddressRisk\<close>, with the fallback of its \<open>catch\<close>.\<close>

definition resolve_entity :: "store \<Rightarrow> address \<Rightarrow> entity_info" where
  "resolve_entity s address =
     (case identifyAddressEntity s address (JBool True) of
        Inr i \<Rightarrow> \<lparr>info_entityId = idn_entityId i, info_entityName = idn_entityName i,
                  info_entityType = idn_entityType i, info_confidence = idn_confidence i\<rparr>
      | Inl e \<Rightarrow> \<lparr>info_entityId = None, info_entityName = ''Unknown'',
                  info_entityType = ''Unknown'', info_confidence = Fin 0\<rparr>)"

definition calculateAddressRisk :: "store \<Rightarrow> int \<Rightarrow> address \<Rightarrow> error + risk_assessment" where
  "calculateAddressRisk s nowMs address =
     (let entityInfo = resolve_entity s address;
          transactions = [];
          riskFactors = detectRiskFactors nowMs address transactions entityInfo;
          riskDetails = calculateRiskScore riskFactors entityInfo
      in Inr \<lparr>ra_address = address, ra_entityId = info_entityId entityInfo,
              ra_entityName = info_entityName entityInfo,
              ra_entityType = info_entityType entityInfo,
              ra_riskScore = score riskDetails,
              ra_riskLevel = riskLevelFromScore (score riskDetails),
              ra_riskFactors = significantFactors riskDetails,
              ra_transactionCount = length transactions,
              ra_lastUpdated = nowMs\<rparr>)"

section \<open>Pattern detection service\<close>

definition calculateConfidence :: "number \<Rightarrow> number \<Rightarrow> number" where
  "calculateConfidence patternStrength sampleSize =
     (let sizeFactor = nmin (Fin 1) (ndiv sampleSize (Fin 20));
          strengthFactor = nmin (Fin 1) (ndiv patternStrength (Fin 10))
      in nmin (js 0.95) (nadd (nmul sizeFactor (js 0.6)) (nmul strengthFactor (js 0.4))))"

fun join :: "string \<Rightarrow> string list \<Rightarrow> string" where
  "join sep [] = []"
| "join sep [x] = x"
| "join sep (x # y # ys) = x @ sep @ join sep (y # ys)"

text \<open>
  \<open>x.toFixed(1)\<close> for a finite \<open>x\<close> below \<open>10^21\<close> in size: the nearest tenth of \<open>|x|\<close>, the
  larger one on a tie, after the sign.
\<close>

fun toFixed1 :: "number \<Rightarrow> string" where
  "toFixed1 (Fin x) =
     (let n = nat \<lfloor>\<bar>x\<bar> * 10 + 1 / 2\<rfloor>
      in (if x < 0 then ''-'' else []) @ show_nat (n div 10) @ ''.'' @ show_nat (n mod 10))"
| "toFixed1 PosInfinity = ''Infinity''"
| "toFixed1 NegInfinity = ''-Infinity''"
| "toFixed1 NaN = ''NaN''"

text \<open>
  The conversion of a value or gas price: the first run of digits and dots of a string,
  read by \<open>parseFloat\<close> (the digits before and after the first dot; \<open>NaN\<close> when there is
  no digit at the start or after a leading dot), 0 for a string without such a run; a
  number as it is, 0 when it counts as false; 0 for a missing field.
\<close>

definition is_digit :: "char \<Rightarrow> bool" where
  "is_digit c \<longleftrightarrow> c \<in> set ''0123456789''"

definition parseFloat_run :: "string \<Rightarrow> number" where
  "parseFloat_run run =
     (let whole = takeWhile is_digit run;
          rest = dropWhile is_digit run;
          fraction = (case rest of
                        c # after \<Rightarrow> if c = CHR ''.'' then takeWhile is_digit after else []
                      | [] \<Rightarrow> [])
      in if whole = [] \<and> fraction = [] then NaN
         else js (real_of_int (index_value whole)
                  + real_of_int (index_value fraction) / 10 ^ length fraction))"

definition numeric_value :: "jsfield \<Rightarrow> number" where
  "numeric_value v =
     (case v of
        Text s \<Rightarrow>
          (let run = takeWhile (\<lambda>c. is_digit c \<or> c = CHR ''.'')
                       (dropWhile (\<lambda>c. \<not> (is_digit c \<or> c = CHR ''.'')) s)
           in if run = [] then Fin 0 else parseFloat_run run)
      | Number n \<Rightarrow> if truthy_number n then n else Fin 0
      | Missing \<Rightarrow> Fin 0)"

definition truthy_field :: "jsfield \<Rightarrow> bool" where
  "truthy_field v = (case v of Text s \<Rightarrow> s \<noteq> [] | Number n \<Rightarrow> truthy_number n | Missing \<Rightarrow> False)"

subsection \<open>Activity timing\<close>

record hours_pattern =
  hp_hours :: "nat list"
  hp_description :: string
  hp_confidence :: number

record days_pattern =
  dp_days :: "string list"
  dp_description :: string
  dp_confidence :: number

record timing_patterns =
  peakHours :: "hours_pattern option"
  activeDays :: "days_pattern option"

definition getUTCHours :: "int \<Rightarrow> nat" where
  "getUTCHours ms = nat ((ms div 3600000) mod 24)"

text \<open>The first of January 1970 was a Thursday, day 4.\<close>

definition getUTCDay :: "int \<Rightarrow> nat" where
  "getUTCDay ms = nat ((ms div 86400000 + 4) mod 7)"

definition dayNames :: "string list" where
  "dayNames = [''Sunday'', ''Monday'', ''Tuesday'', ''Wednesday'', ''Thursday'', ''Friday'', ''Saturday'']"

definition distribution :: "nat \<Rightarrow> (int \<Rightarrow> nat) \<Rightarrow> transaction list \<Rightarrow> number list" where
  "distribution bins slot transactions =
     map (\<lambda>b. ndiv (number_of (length (filter (\<lambda>tx. slot (tx_timestamp tx) = b) transactions)))
                    (number_of (length transactions))) [0..<bins]"

text \<open>
  The mean and the standard deviation of a list of numbers, as the detectors compute them:
  the sums run from the left, starting at 0.
\<close>

definition mean_of :: "number list \<Rightarrow> number \<Rightarrow> number" where
  "mean_of vals n = ndiv (foldl nadd (Fin 0) vals) n"

definition deviation_of :: "math_library \<Rightarrow> number list \<Rightarrow> number \<Rightarrow> number \<Rightarrow> number" where
  "deviation_of math vals mean n =
     Math_sqrt math
       (ndiv (foldl (\<lambda>sum val. nadd sum (Math_pow math (nsub val mean) (Fin 2))) (Fin 0) vals) n)"

text \<open>The slots whose share lies more than \<open>factor\<close> standard deviations above the mean.\<close>

definition peaks :: "math_library \<Rightarrow> number \<Rightarrow> number list \<Rightarrow> nat list" where
  "peaks math factor normalized =
     (let n = number_of (length normalized);
          mean = mean_of normalized n;
          stdDev = deviation_of math normalized mean n
      in filter (\<lambda>b. ngreater (normalized ! b) (nadd mean (nmul factor stdDev)))
                [0..<length normalized])"

definition detectActivityTimingPatterns ::
  "math_library \<Rightarrow> address \<Rightarrow> transaction list \<Rightarrow> timing_patterns" where
  "detectActivityTimingPatterns math address transactions =
     (let totalTx = length transactions;
          normalizedHourDist = distribution 24 getUTCHours transactions;
          normalizedDayDist = distribution 7 getUTCDay transactions;
          peakHours = peaks math (Fin 2) normalizedHourDist;
          activeDays = map (\<lambda>d. dayNames ! d) (peaks math (js 1.5) normalizedDayDist)
      in \<lparr>peakHours =
            (if length peakHours > 0
             then Some \<lparr>hp_hours = peakHours,
                        hp_description = ''Activity concentrated during hours: ''
                                         @ join '', '' (map show_nat peakHours),
                        hp_confidence = calculateConfidence (number_of (length peakHours))
                                                            (number_of totalTx)\<rparr>
             else None),
          activeDays =
            (if length activeDays > 0
             then Some \<lparr>dp_days = activeDays,
                        dp_description = ''Activity concentrated on days: '' @ join '', '' activeDays,
                        dp_confidence = calculateConfidence (number_of (length activeDays))
                                                            (number_of totalTx)\<rparr>
             else None)\<rparr>)"

subsection \<open>Transaction values\<close>

text \<open>
  The two counting objects are keyed by the values. A round value is its own key
  (\<open>String\<close> tells any two numbers apart); the key \<open>value.toFixed(8)\<close> of another value is
  the sign with the integer nearest to \<open>|value| \<times> 10^8\<close>, the larger one on a tie, or
  \<open>NaN\<close>. \<open>parseFloat\<close> reads the value back from the key. The keys that are array
  indices are enumerated first, in ascending order.
\<close>

datatype fixed_key = FixedNaN | Fixed bool nat

definition toFixed8 :: "number \<Rightarrow> fixed_key" where
  "toFixed8 v = (case v of Fin x \<Rightarrow> Fixed (x < 0) (nat \<lfloor>\<bar>x\<bar> * 10 ^ 8 + 1 / 2\<rfloor>) | _ \<Rightarrow> FixedNaN)"

definition parseFloat_fixed :: "fixed_key \<Rightarrow> number" where
  "parseFloat_fixed k =
     (case k of
        FixedNaN \<Rightarrow> NaN
      | Fixed negative n \<Rightarrow> js ((if negative then - 1 else 1) * real n / 10 ^ 8))"

definition is_index_number :: "number \<Rightarrow> bool" where
  "is_index_number v = (case v of Fin x \<Rightarrow> of_int \<lfloor>x\<rfloor> = x \<and> 0 \<le> x \<and> x < 4294967295 | _ \<Rightarrow> False)"

definition index_of_number :: "number \<Rightarrow> int" where
  "index_of_number v = (case v of Fin x \<Rightarrow> \<lfloor>x\<rfloor> | _ \<Rightarrow> 0)"

definition own_number_props :: "(number \<times> 'v) list \<Rightarrow> (number \<times> 'v) list" where
  "own_number_props obj =
     sort_key (\<lambda>kv. index_of_number (fst kv)) (filter (\<lambda>kv. is_index_number (fst kv)) obj)
     @ filter (\<lambda>kv. \<not> is_index_number (fst kv)) obj"

definition tally :: "'k \<Rightarrow> ('k \<times> nat) list \<Rightarrow> ('k \<times> nat) list" where
  "tally key counts = AList.update key ((case map_of counts key of Some c \<Rightarrow> c | None \<Rightarrow> 0) + 1) counts"

record value_count =
  vc_value :: number
  vc_count :: nat
  vc_percentage :: number

record values_pattern =
  vp_values :: "value_count list"
  vp_description :: string
  vp_confidence :: number

text \<open>The description of the range, which prints the two bounds, is not modelled.\<close>

record range_pattern =
  rp_min :: number
  rp_max :: number
  rp_ratio :: number
  rp_confidence :: number

record value_patterns =
  roundValues :: "values_pattern option"
  recurringValues :: "values_pattern option"
  wideValueRange :: "range_pattern option"

text \<open>The values counted at least three times, the most frequent first.\<close>

definition significant_values :: "nat \<Rightarrow> (number \<times> nat) list \<Rightarrow> value_count list" where
  "significant_values sampleCount counted =
     sort_key (\<lambda>c. - int (vc_count c))
       (map (\<lambda>(v, n). \<lparr>vc_value = v, vc_count = n,
                        vc_percentage = nmul (ndiv (number_of n) (number_of sampleCount)) (Fin 100)\<rparr>)
            (filter (\<lambda>(v, n). n \<ge> 3) counted))"

text \<open>
  The smallest and the largest value; for no value at all both are \<open>undefined\<close>, which the
  comparison turns into \<open>NaN\<close>.
\<close>

definition detectValueDistributionPatterns :: "address \<Rightarrow> transaction list \<Rightarrow> value_patterns" where
  "detectValueDistributionPatterns address transactions =
     (let vals = map (\<lambda>tx. numeric_value (tx_value tx)) transactions;
          sortedValues = sort_by nsub vals;
          minimum = (if sortedValues = [] then NaN else hd sortedValues);
          maximum = (if sortedValues = [] then NaN else last sortedValues);
          mean = mean_of vals (number_of (length vals));
          roundValueCounts = fold (\<lambda>v counts. if is_round v then tally v counts else counts) vals [];
          significantRoundValues =
            significant_values (length vals) (own_number_props roundValueCounts);
          exactValueCounts =
            fold (\<lambda>v counts. if \<not> is_round v then tally (toFixed8 v) counts else counts) vals [];
          significantExactValues =
            significant_values (length vals) (map (\<lambda>(k, n). (parseFloat_fixed k, n)) exactValueCounts)
      in \<lparr>roundValues =
            (if length significantRoundValues > 0
             then Some \<lparr>vp_values = significantRoundValues,
                        vp_description = ''Frequent round-value transactions detected'',
                        vp_confidence = calculateConfidence (number_of (length significantRoundValues))
                                                            (number_of (length vals))\<rparr>
             else None),
          recurringValues =
            (if length significantExactValues > 0
             then Some \<lparr>vp_values = significantExactValues,
                        vp_description = ''Recurring exact-value transactions detected'',
                        vp_confidence = calculateConfidence (number_of (length significantExactValues))
                                                            (number_of (length vals))\<rparr>
             else None),
          wideValueRange =
            (if ngreater maximum (nmul minimum (Fin 100))
             then Some \<lparr>rp_min = minimum, rp_max = maximum, rp_ratio = ndiv maximum minimum,
                        rp_confidence = js 0.7\<rparr>
             else None)\<rparr>)"

subsection \<open>Counterparties\<close>

record counterparty =
  cp_address :: string
  cp_count :: nat
  cp_percentage :: number

record frequent_pattern =
  fp_counterparties :: "counterparty list"
  fp_description :: string
  fp_confidence :: number

record one_time_pattern =
  otp_count :: nat
  otp_percentage :: number
  otp_description :: string
  otp_confidence :: number

record counterparty_patterns =
  frequentCounterparties :: "frequent_pattern option"
  manyOneTimeInteractions :: "one_time_pattern option"

text \<open>
  \<open>counterpartyCounts[counterparty] = (counterpartyCounts[counterparty] || 0) + 1\<close>. For a
  counterparty that names an inherited member, the lookup yields that member, and adding 1
  gives a string, which later additions extend: the entry holds no count (\<open>None\<close>). The
  assignment to \<open>__proto__\<close> makes no entry.
\<close>

definition counterpartyCounts :: "address \<Rightarrow> transaction list \<Rightarrow> (string \<times> nat option) list" where
  "counterpartyCounts address transactions =
     fold (\<lambda>tx counts.
             let counterparty = (if tx_from tx = address then tx_to tx else tx_from tx);
                 key = to_key counterparty
             in (case get_property counts key of
                   Own (Some c) \<Rightarrow> set_property key (Some (c + 1)) counts
                 | Own None \<Rightarrow> set_property key None counts
                 | Inherited \<Rightarrow> set_property key None counts
                 | Absent \<Rightarrow> set_property key (Some 1) counts))
          transactions []"

definition detectCounterpartyPatterns :: "address \<Rightarrow> transaction list \<Rightarrow> counterparty_patterns" where
  "detectCounterpartyPatterns address transactions =
     (let counts = counterpartyCounts address transactions;
          frequentCounterparties =
            take 5 (sort_key (\<lambda>c. - int (cp_count c))
              (concat (map (\<lambda>(addr, counted).
                              case counted of
                                Some n \<Rightarrow>
                                  if n \<ge> 3
                                  then [\<lparr>cp_address = addr, cp_count = n,
                                         cp_percentage =
                                           nmul (ndiv (number_of n) (number_of (length transactions)))
                                                (Fin 100)\<rparr>]
                                  else []
                              | None \<Rightarrow> [])
                           (own_props counts))));
          oneTimeCount = length (filter (\<lambda>(addr, counted). counted = Some 1) (own_props counts));
          oneTimePercentage = nmul (ndiv (number_of oneTimeCount) (number_of (length counts))) (Fin 100)
      in \<lparr>frequentCounterparties =
            (if length frequentCounterparties > 0
             then Some \<lparr>fp_counterparties = frequentCounterparties,
                        fp_description = ''Regular interactions with ''
                                         @ show_nat (length frequentCounterparties) @ '' addresses'',
                        fp_confidence = calculateConfidence (number_of (length frequentCounterparties))
                                                            (number_of (length transactions))\<rparr>
             else None),
          manyOneTimeInteractions =
            (if ngreater oneTimePercentage (Fin 80) \<and> length counts > 10
             then Some \<lparr>otp_count = oneTimeCount, otp_percentage = oneTimePercentage,
                        otp_description = ''High percentage ('' @ toFixed1 oneTimePercentage
                                          @ ''%) of one-time interactions'',
                        otp_confidence = js 0.7\<rparr>
             else None)\<rparr>)"

subsection \<open>Periodic activity\<close>

record periodic_pattern =
  pp_count :: nat
  pp_description :: string
  pp_confidence :: number

record periodic_patterns =
  dailyActivity :: "periodic_pattern option"
  weeklyActivity :: "periodic_pattern option"
  monthlyActivity :: "periodic_pattern option"

text \<open>The intervals between consecutive transactions, in hours.\<close>

fun intervals_of :: "transaction list \<Rightarrow> number list" where
  "intervals_of (previous # current # rest) =
     ndiv (nsub (Fin (real_of_int (tx_timestamp current))) (Fin (real_of_int (tx_timestamp previous))))
          (Fin (1000 * 60 * 60))
     # intervals_of (current # rest)"
| "intervals_of _ = []"

definition periodic :: "number \<Rightarrow> number \<Rightarrow> nat \<Rightarrow> number \<Rightarrow> string \<Rightarrow> number list \<Rightarrow> periodic_pattern option" where
  "periodic lo hi least share text intervals =
     (let found = filter (\<lambda>interval. nge interval lo \<and> nle interval hi) intervals
      in if length found \<ge> least
            \<and> nge (ndiv (number_of (length found)) (number_of (length intervals))) share
         then Some \<lparr>pp_count = length found, pp_description = text,
                    pp_confidence = calculateConfidence (number_of (length found))
                                                        (number_of (length intervals))\<rparr>
         else None)"

definition detectPeriodicPatterns :: "address \<Rightarrow> transaction list \<Rightarrow> periodic_patterns" where
  "detectPeriodicPatterns address transactions =
     (let sortedTransactions = sort_key tx_timestamp transactions;
          intervals = intervals_of sortedTransactions
      in if length intervals < 5
         then \<lparr>dailyActivity = None, weeklyActivity = None, monthlyActivity = None\<rparr>
         else \<lparr>dailyActivity =
                 periodic (Fin 23) (Fin 25) 3 (js 0.3)
                   ''Regular daily transaction pattern detected'' intervals,
               weeklyActivity =
                 periodic (Fin 163) (Fin 173) 3 (js 0.2)
                   ''Regular weekly transaction pattern detected'' intervals,
               monthlyActivity =
                 periodic (Fin 696) (Fin 744) 2 (js 0.15)
                   ''Regular monthly transaction pattern detected'' intervals\<rparr>)"

subsection \<open>Gas usage\<close>

record consistent_gas_pattern =
  cg_mean :: number
  cg_stdDev :: number
  cg_variability :: number
  cg_description :: string
  cg_confidence :: number

record gas_preference_pattern =
  gp_avgPrice :: number
  gp_marketRatio :: number
  gp_description :: string
  gp_confidence :: number

record gas_patterns =
  consistentGasPrice :: "consistent_gas_pattern option"
  highGasPricePreference :: "gas_preference_pattern option"
  lowGasPricePreference :: "gas_preference_pattern option"

definition detectGasUsagePatterns :: "math_library \<Rightarrow> address \<Rightarrow> transaction list \<Rightarrow> gas_patterns" where
  "detectGasUsagePatterns math address transactions =
     (let txsWithGas = filter (\<lambda>tx. truthy_field (tx_gasPrice tx) \<and> truthy_field (tx_gasUsed tx))
                              transactions
      in if length txsWithGas < 5
         then \<lparr>consistentGasPrice = None, highGasPricePreference = None, lowGasPricePreference = None\<rparr>
         else
           let gasPrices = map (\<lambda>tx. numeric_value (tx_gasPrice tx)) txsWithGas;
               mean = mean_of gasPrices (number_of (length gasPrices));
               stdDev = deviation_of math gasPrices mean (number_of (length gasPrices));
               gasVariability = ndiv stdDev mean;
               marketAvgGasPrice = Fin 20;
               avgRatio = ndiv mean marketAvgGasPrice
           in \<lparr>consistentGasPrice =
                 (if nless gasVariability (js 0.1) \<and> length txsWithGas \<ge> 10
                  then Some \<lparr>cg_mean = mean, cg_stdDev = stdDev, cg_variability = gasVariability,
                             cg_description = ''Consistently uses similar gas price across transactions'',
                             cg_confidence = js 0.8\<rparr>
                  else None),
               highGasPricePreference =
                 (if ngreater avgRatio (js 1.5)
                  then Some \<lparr>gp_avgPrice = mean, gp_marketRatio = avgRatio,
                             gp_description = ''Consistently uses above-market gas prices'',
                             gp_confidence = calculateConfidence (number_of (length txsWithGas))
                                                                 (number_of (length transactions))\<rparr>
                  else None),
               lowGasPricePreference =
                 (if \<not> ngreater avgRatio (js 1.5) \<and> nless avgRatio (js 0.75)
                  then Some \<lparr>gp_avgPrice = mean, gp_marketRatio = avgRatio,
                             gp_description = ''Consistently uses below-market gas prices'',
                             gp_confidence = calculateConfidence (number_of (length txsWithGas))
                                                                 (number_of (length transactions))\<rparr>
                  else None)\<rparr>)"

section \<open>Predicates on clusterings\<close>

text \<open>Some cluster holds every address of the list.\<close>

definition same_cluster :: "clusters \<Rightarrow> address list \<Rightarrow> bool" where
  "same_cluster cls addrs = list_ex (\<lambda>(clusterId, cluster). list_all (\<lambda>a. a \<in> set cluster) addrs) cls"

text \<open>No address lies in two clusters.\<close>

definition clusters_disjoint :: "clusters \<Rightarrow> bool" where
  "clusters_disjoint cls =
     list_all (\<lambda>(c1, m1). list_all (\<lambda>(c2, m2). c1 = c2 \<or> list_all (\<lambda>a. a \<notin> set m2) m1) cls) cls"

text \<open>Some cluster holds the address.\<close>

definition covered :: "clusters \<Rightarrow> address \<Rightarrow> bool" where
  "covered cls a = list_ex (\<lambda>(clusterId, cluster). a \<in> set cluster) cls"

text \<open>The addresses that appear in the transactions, as inputs or as outputs.\<close>

definition transaction_addresses :: "transaction list \<Rightarrow> address list" where
  "transaction_addresses transactions =
     concat (map (\<lambda>tx. getInputAddresses tx @ getOutputAddresses tx) transactions)"

text \<open>Every member of every cluster lies in the set.\<close>

definition members_within :: "address set \<Rightarrow> clusters \<Rightarrow> bool" where
  "members_within S cls \<longleftrightarrow> (\<forall>(c, cl) \<in> set cls. set cl \<subseteq> S)"

text \<open>
  The ids of the common-input and change-address clusters start with \<open>c\<close>, those of the
  behavioral clusters with \<open>b\<close>.
\<close>

definition cluster_key :: "string \<Rightarrow> bool" where
  "cluster_key k \<longleftrightarrow> k \<noteq> [] \<and> hd k = CHR ''c''"

definition behavioral_key :: "string \<Rightarrow> bool" where
  "behavioral_key k \<longleftrightarrow> k \<noteq> [] \<and> hd k = CHR ''b''"

text \<open>
  The same notions on the object seen as a finite map, as the proofs use them: clusters
  with different ids share no address; some cluster includes the set; every cluster of
  the first object is included in a cluster of the second.
\<close>

definition disj :: "clusters \<Rightarrow> bool" where
  "disj cls \<longleftrightarrow> (\<forall>c1 c2 m1 m2. map_of cls c1 = Some m1 \<longrightarrow> map_of cls c2 = Some m2 \<longrightarrow> c1 \<noteq> c2
       \<longrightarrow> set m1 \<inter> set m2 = {})"

definition covers :: "clusters \<Rightarrow> address set \<Rightarrow> bool" where
  "covers cls X \<longleftrightarrow> (\<exists>c m. map_of cls c = Some m \<and> X \<subseteq> set m)"

definition grows :: "clusters \<Rightarrow> clusters \<Rightarrow> bool" where
  "grows cls cls' \<longleftrightarrow> (\<forall>c m. map_of cls c = Some m \<longrightarrow> covers cls' (set m))"

text \<open>
  While the clusters of \<open>R\<close> are merged into the target \<open>t\<close>, only the target and a
  cluster still to be merged may share an address.
\<close>

definition olap :: "string \<Rightarrow> string list \<Rightarrow> clusters \<Rightarrow> bool" where
  "olap t R cls \<longleftrightarrow> (\<forall>c1 c2 m1 m2. map_of cls c1 = Some m1 \<longrightarrow> map_of cls c2 = Some m2 \<longrightarrow> c1 \<noteq> c2
       \<longrightarrow> set m1 \<inter> set m2 \<noteq> {} \<longrightarrow> (c1 = t \<and> c2 \<in> set R) \<or> (c2 = t \<and> c1 \<in> set R))"

text \<open>
  The invariant of the loop of \<open>commonInputClustering\<close>: distinct ids, disjoint clusters,
  and every id made from a counter value already used.
\<close>

definition cinv :: "clusters \<times> nat \<Rightarrow> bool" where
  "cinv st \<longleftrightarrow> distinct (map fst (fst st)) \<and> disj (fst st)
     \<and> (\<forall>c \<in> fst ` set (fst st). \<exists>i<snd st. c = ''cluster_'' @ show_nat i)"

text \<open>The invariant of the loop of behavioral clustering.\<close>

definition binv :: "clusters \<times> nat \<times> address list \<Rightarrow> bool" where
  "binv st \<longleftrightarrow> (case st of (cls, n, processed) \<Rightarrow>
      distinct (map fst cls)
      \<and> (\<forall>c \<in> fst ` set cls. \<exists>i<n. c = ''behavioral_cluster_'' @ show_nat i)
      \<and> (\<forall>a \<in> set processed. covered cls a)
      \<and> (\<forall>(c, cl) \<in> set cls. set cl \<subseteq> set processed))"

section \<open>Example transactions and stores\<close>

text \<open>A payment from one address to another, and a transaction with input and output lists.\<close>

definition pay :: "string \<Rightarrow> string \<Rightarrow> string \<Rightarrow> transaction" where
  "pay h a b = \<lparr>tx_hash = JStr h, tx_timestamp = 0, tx_from = JStr a, tx_to = JStr b, inputs = None, outputs = None,
     tx_value = Missing, tx_gasPrice = Missing, tx_gasUsed = Missing\<rparr>"

definition spend :: "string \<Rightarrow> string list \<Rightarrow> string list \<Rightarrow> transaction" where
  "spend h ins outs = \<lparr>tx_hash = JStr h, tx_timestamp = 0, tx_from = JUndefined, tx_to = JUndefined,
     inputs = Some (map JStr ins), outputs = Some (map JStr outs),
     tx_value = Missing, tx_gasPrice = Missing, tx_gasUsed = Missing\<rparr>"

text \<open>A payment whose sender is missing.\<close>

definition orphan_payment :: transaction where
  "orphan_payment = \<lparr>tx_hash = JStr ''h1'', tx_timestamp = 0, tx_from = JUndefined, tx_to = JStr ''b'',
     inputs = None, outputs = None, tx_value = Missing, tx_gasPrice = Missing, tx_gasUsed = Missing\<rparr>"

text \<open>Payments of one address to \<open>k\<close> counterparties in turn, and one payment a day.\<close>

definition payments :: "nat \<Rightarrow> nat \<Rightarrow> transaction list" where
  "payments n k = map (\<lambda>i. pay (''h'' @ show_nat i) ''me'' (''cp'' @ show_nat (i mod k))) [0..<n]"

definition daily_payments :: "nat \<Rightarrow> transaction list" where
  "daily_payments n = map (\<lambda>i. (pay (''h'' @ show_nat i) ''me'' ''shop'')\<lparr>tx_timestamp := int i * 86400000\<rparr>) [0..<n]"

text \<open>The entity store as the module starts, and one with an entity of full confidence.\<close>

definition example_store :: store where
  "example_store = initial_store (\<lambda>n. ''uuid-'' @ show_nat n) ''2024-01-01T00:00:00.000Z''"

definition certain_store :: store where
  "certain_store =
     snd (createEntity example_store
            \<lparr>data_name = ''Listed wallet'', data_type = ''Sanctioned'',
             data_description = ''Address taken from a published list'',
             data_addresses = [JStr ''0xbad''], data_confidenceScore = Fin 1\<rparr>)"

definition unattributed :: "number \<Rightarrow> string list \<Rightarrow> attribution" where
  "unattributed c addrs =
     \<lparr>att_entityId = None, att_entityName = ''Unknown'', att_entityType = ''Unknown'',
      att_confidence = c, att_addresses = map JStr addrs, att_matchedAddresses = []\<rparr>"

section \<open>Facts about sets, objects and cluster ids\<close>

lemma set_fold_set_add [simp]: "set (fold set_add xs s) = set s \<union> set xs"
  by (induction xs arbitrary: s) (auto simp: set_add_def)

lemma distinct_fold_set_add: "distinct s \<Longrightarrow> distinct (fold set_add xs s)"
  by (induction xs arbitrary: s) (auto simp: set_add_def)

lemma set_new_Set [simp]: "set (new_Set xs) = set xs"
  by (simp add: new_Set_def)

lemma set_own_props [simp]: "set (own_props obj) = set obj"
  by (auto simp: own_props_def)

lemma distinct_keys_own_props:
  assumes "distinct (map fst obj)"
  shows "distinct (map fst (own_props obj))"
proof -
  from assms have d: "distinct obj" and i: "inj_on fst (set obj)"
    by (simp_all add: distinct_map)
  have "distinct (own_props obj)"
    using d by (auto simp: own_props_def)
  moreover have "inj_on fst (set (own_props obj))"
    using i by simp
  ultimately show ?thesis by (simp add: distinct_map)
qed

lemma map_of_own_props:
  "distinct (map fst obj) \<Longrightarrow> map_of (own_props obj) = map_of obj"
  using distinct_keys_own_props map_of_inject_set set_own_props by blast

lemma digit_char_inj: "a < 10 \<Longrightarrow> b < 10 \<Longrightarrow> digit_char a = digit_char b \<Longrightarrow> a = b"
proof -
  assume a: "a < 10" and b: "b < 10" and e: "digit_char a = digit_char b"
  have "distinct ''0123456789''" by simp
  then show ?thesis using a b e unfolding digit_char_def
    by (simp add: nth_eq_iff_index_eq)
qed

lemma show_nat_nonempty: "show_nat n \<noteq> []"
  by (subst show_nat.simps) simp

lemma show_nat_inj: "show_nat a = show_nat b \<Longrightarrow> a = b"
proof (induction a arbitrary: b rule: show_nat.induct)
  case (1 n)
  show ?case
  proof (cases "n < 10")
    case True
    then have sn: "show_nat n = [digit_char n]" by (subst show_nat.simps) simp
    show ?thesis
    proof (cases "b < 10")
      case True
      then have "show_nat b = [digit_char b]" by (subst show_nat.simps) simp
      with sn "1.prems" \<open>n < 10\<close> True show ?thesis by (auto dest: digit_char_inj)
    next
      case False
      then have "show_nat b = show_nat (b div 10) @ [digit_char (b mod 10)]"
        by (subst show_nat.simps) simp
      with sn "1.prems" show_nat_nonempty[of "b div 10"] show ?thesis by simp
    qed
  next
    case False
    then have sn: "show_nat n = show_nat (n div 10) @ [digit_char (n mod 10)]"
      by (subst show_nat.simps) simp
    show ?thesis
    proof (cases "b < 10")
      case True
      then have "show_nat b = [digit_char b]" by (subst show_nat.simps) simp
      with sn "1.prems" show_nat_nonempty[of "n div 10"] show ?thesis by simp
    next
      case b: False
      then have sb: "show_nat b = show_nat (b div 10) @ [digit_char (b mod 10)]"
        by (subst show_nat.simps) simp
      from sn sb "1.prems" have e1: "show_nat (n div 10) = show_nat (b div 10)"
        and e2: "digit_char (n mod 10) = digit_char (b mod 10)" by simp_all
      from "1.IH"[OF False e1] have "n div 10 = b div 10" .
      moreover from e2 have "n mod 10 = b mod 10" by (intro digit_char_inj) simp_all
      ultimately show ?thesis by (metis div_mult_mod_eq)
    qed
  qed
qed

lemma set_inner_fold:
  "set (fold (\<lambda>(clusterId, members) ex. if address \<in> set members then set_add clusterId ex else ex) xs acc)
   = set acc \<union> {c. \<exists>ms. (c, ms) \<in> set xs \<and> address \<in> set ms}"
  by (induction xs arbitrary: acc) (auto simp: set_add_def split: if_splits)

lemma distinct_inner_fold:
  "distinct acc \<Longrightarrow> distinct (fold (\<lambda>(clusterId, members) ex. if address \<in> set members then set_add clusterId ex else ex) xs acc)"
  by (induction xs arbitrary: acc) (auto simp: set_add_def)

lemma set_outer_fold:
  "set (fold (\<lambda>address existing.
             fold (\<lambda>(clusterId, members) ex.
                     if address \<in> set members then set_add clusterId ex else ex)
                  xs existing) T acc)
   = set acc \<union> {c. \<exists>ms. (c, ms) \<in> set xs \<and> set ms \<inter> set T \<noteq> {}}"
  by (induction T arbitrary: acc) (auto simp: set_inner_fold)

lemma distinct_outer_fold:
  "distinct acc \<Longrightarrow> distinct (fold (\<lambda>address existing.
             fold (\<lambda>(clusterId, members) ex.
                     if address \<in> set members then set_add clusterId ex else ex)
                  xs existing) T acc)"
  by (induction T arbitrary: acc) (auto simp: distinct_inner_fold)

lemma set_existingClusters:
  "set (existingClusters cls T) = {c. \<exists>ms. (c, ms) \<in> set cls \<and> set ms \<inter> set T \<noteq> {}}"
  by (simp add: existingClusters_def set_outer_fold)

lemma distinct_existingClusters: "distinct (existingClusters cls T)"
  by (simp add: existingClusters_def distinct_outer_fold)

lemma grows_refl: "grows cls cls"
  by (auto simp: grows_def covers_def)

lemma covers_mono: "grows cls cls' \<Longrightarrow> covers cls X \<Longrightarrow> covers cls' X"
  unfolding grows_def covers_def by (meson subset_trans)

lemma grows_trans: "grows a b \<Longrightarrow> grows b c \<Longrightarrow> grows a c"
  unfolding grows_def using covers_mono[unfolded grows_def] by blast

lemma map_of_merge_step:
  assumes "distinct (map fst cls)" "r \<noteq> t"
  shows "map_of (AList.delete r (AList.map_entry t f cls)) k
         = (if k = r then None else if k = t then map_option f (map_of cls t) else map_of cls k)"
  by (auto simp: map_of_map_entry AList.delete_conv split: option.splits)

lemma merge_clusters_inv:
  assumes "distinct (map fst cls)" "map_of cls t = Some mt" "t \<notin> set R" "olap t R cls"
  shows "distinct (map fst (merge_clusters t R cls)) \<and> disj (merge_clusters t R cls)
         \<and> fst ` set (merge_clusters t R cls) \<subseteq> fst ` set cls
         \<and> grows cls (merge_clusters t R cls)
         \<and> (\<exists>mt'. map_of (merge_clusters t R cls) t = Some mt' \<and> set mt \<subseteq> set mt')"
  using assms
proof (induction R arbitrary: cls mt)
  case Nil
  then show ?case by (auto simp: disj_def olap_def grows_refl)
next
  case (Cons r R)
  let ?f = "fold set_add (members_of cls r)"
  let ?cls2 = "AList.delete r (AList.map_entry t ?f cls)"
  from Cons.prems have rt: "r \<noteq> t" and tR: "t \<notin> set R" by auto
  have m2: "\<And>k. map_of ?cls2 k = (if k = r then None else if k = t then Some (?f mt) else map_of cls k)"
    using map_of_merge_step[OF Cons.prems(1) rt, of ?f] Cons.prems(2) by simp
  have d2: "distinct (map fst ?cls2)"
    using Cons.prems(1) by (simp add: distinct_delete distinct_map_entry)
  have t2: "map_of ?cls2 t = Some (?f mt)" using m2 rt by simp
  have o2: "olap t R ?cls2"
    unfolding olap_def
  proof (intro allI impI)
    fix c1 c2 m1 m2'
    assume a1: "map_of ?cls2 c1 = Some m1" and a2: "map_of ?cls2 c2 = Some m2'"
      and ne: "c1 \<noteq> c2" and ov: "set m1 \<inter> set m2' \<noteq> {}"
    from a1 a2 m2 have c1r: "c1 \<noteq> r" and c2r: "c2 \<noteq> r" by (auto split: if_splits)
    have key: "\<And>c m. c \<noteq> t \<Longrightarrow> c \<noteq> r \<Longrightarrow> map_of cls c = Some m \<Longrightarrow> set m \<inter> set (?f mt) \<noteq> {} \<Longrightarrow> c \<in> set R"
    proof -
      fix c m assume c: "c \<noteq> t" "c \<noteq> r" "map_of cls c = Some m" "set m \<inter> set (?f mt) \<noteq> {}"
      then consider "set m \<inter> set mt \<noteq> {}" | "set m \<inter> set (members_of cls r) \<noteq> {}" by auto
      then show "c \<in> set R"
      proof cases
        case 1
        with Cons.prems(4)[unfolded olap_def] c Cons.prems(2) show ?thesis
          by (metis set_ConsD)
      next
        case 2
        then obtain mr where mr: "map_of cls r = Some mr" "set m \<inter> set mr \<noteq> {}"
          by (cases "map_of cls r") (auto simp: members_of_def)
        with Cons.prems(4)[unfolded olap_def] c rt show ?thesis by metis
      qed
    qed
    show "(c1 = t \<and> c2 \<in> set R) \<or> (c2 = t \<and> c1 \<in> set R)"
    proof (cases "c1 = t")
      case True
      with ne have "c2 \<noteq> t" by simp
      with a1 a2 m2 True c2r have "map_of cls c2 = Some m2'" "m1 = ?f mt" by (auto split: if_splits)
      with key[of c2 m2'] \<open>c2 \<noteq> t\<close> c2r ov True show ?thesis by auto
    next
      case False
      show ?thesis
      proof (cases "c2 = t")
        case True
        with a1 a2 m2 False c1r have "map_of cls c1 = Some m1" "m2' = ?f mt" by (auto split: if_splits)
        with key[of c1 m1] False c1r ov True show ?thesis by auto
      next
        case c2t: False
        with a1 a2 m2 False c1r c2r have "map_of cls c1 = Some m1" "map_of cls c2 = Some m2'"
          by (auto split: if_splits)
        with Cons.prems(4)[unfolded olap_def] ne ov False c2t show ?thesis by metis
      qed
    qed
  qed
  from Cons.IH[OF d2 t2 tR o2]
  have ih: "distinct (map fst (merge_clusters t R ?cls2))" "disj (merge_clusters t R ?cls2)"
    "fst ` set (merge_clusters t R ?cls2) \<subseteq> fst ` set ?cls2"
    "grows ?cls2 (merge_clusters t R ?cls2)"
    "\<exists>mt'. map_of (merge_clusters t R ?cls2) t = Some mt' \<and> set (?f mt) \<subseteq> set mt'"
    by auto
  have k2: "fst ` set ?cls2 \<subseteq> fst ` set cls"
    by (metis delete_keys dom_map_entry list.set_map set_removeAll Diff_subset)
  have g2: "grows cls ?cls2"
    unfolding grows_def covers_def
  proof (intro allI impI)
    fix c m assume cm: "map_of cls c = Some m"
    show "\<exists>c' m'. map_of ?cls2 c' = Some m' \<and> set m \<subseteq> set m'"
    proof (cases "c = r \<or> c = t")
      case True
      with cm Cons.prems(2) have "set m \<subseteq> set (?f mt)"
        by (auto simp: members_of_def)
      with t2 show ?thesis by blast
    next
      case False
      with cm m2 have "map_of ?cls2 c = Some m" by simp
      then show ?thesis by blast
    qed
  qed
  have "grows cls (merge_clusters t R ?cls2)" using g2 ih(4) by (rule grows_trans)
  moreover have "fst ` set (merge_clusters t R ?cls2) \<subseteq> fst ` set cls" using ih(3) k2 by blast
  moreover have "\<exists>mt'. map_of (merge_clusters t R ?cls2) t = Some mt' \<and> set mt \<subseteq> set mt'"
  proof -
    from ih(5) obtain mt' where "map_of (merge_clusters t R ?cls2) t = Some mt'"
      "set (?f mt) \<subseteq> set mt'" by blast
    moreover have "set mt \<subseteq> set (?f mt)" by simp
    ultimately show ?thesis by blast
  qed
  ultimately show ?case using ih(1,2) by simp
qed

lemma existing_iff:
  assumes "distinct (map fst cls)"
  shows "c \<in> set (existingClusters cls T) \<longleftrightarrow> (\<exists>ms. map_of cls c = Some ms \<and> set ms \<inter> set T \<noteq> {})"
  using assms by (auto simp: set_existingClusters)

lemma map_of_map_entry_pt:
  "map_of (AList.map_entry c f cls) k = (if k = c then map_option f (map_of cls c) else map_of cls k)"
  by (auto simp: map_of_map_entry split: option.splits)

lemma keys_update: "fst ` set (AList.update k v al) = insert k (fst ` set al)"
  by (induction al) auto

lemma cluster_tx_step:
  assumes inv: "cinv (cls, n)"
  shows "cinv (cluster_tx tx (cls, n)) \<and> grows cls (fst (cluster_tx tx (cls, n)))
         \<and> (1 < length (getInputAddresses tx)
              \<longrightarrow> covers (fst (cluster_tx tx (cls, n))) (set (getInputAddresses tx)))"
proof (cases "length (getInputAddresses tx) \<le> 1")
  case True
  then show ?thesis using inv by (simp add: cluster_tx_def grows_refl)
next
  case False
  define T where "T = getInputAddresses tx"
  define E where "E = existingClusters cls T"
  from inv have d: "distinct (map fst cls)" and dj: "disj cls"
    and ids: "\<And>c. c \<in> fst ` set cls \<Longrightarrow> \<exists>i<n. c = ''cluster_'' @ show_nat i"
    by (auto simp: cinv_def)
  have E_iff: "\<And>c. c \<in> set E \<longleftrightarrow> (\<exists>ms. map_of cls c = Some ms \<and> set ms \<inter> set T \<noteq> {})"
    unfolding E_def by (rule existing_iff[OF d])
  have dE: "distinct E" unfolding E_def by (rule distinct_existingClusters)
  show ?thesis
  proof (cases E)
    case Nil
    define k where "k = ''cluster_'' @ show_nat n"
    define cls' where "cls' = AList.update k (new_Set T) cls"
    have step: "cluster_tx tx (cls, n) = (cls', n + 1)"
      using False Nil by (simp add: cluster_tx_def T_def[symmetric] E_def[symmetric] cls'_def k_def)
    have fresh: "k \<notin> fst ` set cls"
    proof
      assume "k \<in> fst ` set cls"
      from ids[OF this] obtain i where "i < n" "k = ''cluster_'' @ show_nat i" by blast
      then show False by (auto simp: k_def dest: show_nat_inj)
    qed
    then have kn: "map_of cls k = None" by (simp add: map_of_eq_None_iff)
    have m': "\<And>c. map_of cls' c = (if c = k then Some (new_Set T) else map_of cls c)"
      by (simp add: cls'_def update_conv)
    have notouch: "\<And>c ms. map_of cls c = Some ms \<Longrightarrow> set ms \<inter> set T = {}"
      using E_iff Nil by auto
    have "distinct (map fst cls')" using d by (simp add: cls'_def distinct_update)
    moreover have "disj cls'"
      unfolding disj_def
    proof (intro allI impI)
      fix c1 c2 m1 m2 assume a: "map_of cls' c1 = Some m1" "map_of cls' c2 = Some m2" "c1 \<noteq> c2"
      show "set m1 \<inter> set m2 = {}"
      proof (cases "c1 = k")
        case True
        with a m' have "m1 = new_Set T" "map_of cls c2 = Some m2" by (auto split: if_splits)
        with notouch[of c2 m2] show ?thesis by auto
      next
        case c1: False
        show ?thesis
        proof (cases "c2 = k")
          case True
          with a m' have "m2 = new_Set T" "map_of cls c1 = Some m1" by (auto split: if_splits)
          with notouch[of c1 m1] show ?thesis by auto
        next
          case False
          with c1 a m' have "map_of cls c1 = Some m1" "map_of cls c2 = Some m2" by auto
          with dj a(3) show ?thesis unfolding disj_def by blast
        qed
      qed
    qed
    moreover have "\<forall>c \<in> fst ` set cls'. \<exists>i<n + 1. c = ''cluster_'' @ show_nat i"
    proof
      fix c assume "c \<in> fst ` set cls'"
      then have "c = k \<or> c \<in> fst ` set cls"
        by (simp add: cls'_def keys_update)
      then show "\<exists>i<n + 1. c = ''cluster_'' @ show_nat i"
        using ids by (auto simp: k_def intro: less_SucI)
    qed
    moreover have "grows cls cls'"
      unfolding grows_def covers_def
    proof (intro allI impI)
      fix x ms assume x: "map_of cls x = Some ms"
      with kn have "x \<noteq> k" by auto
      with x m'[of x] show "\<exists>c' m'. map_of cls' c' = Some m' \<and> set ms \<subseteq> set m'" by auto
    qed
    moreover have "covers cls' (set T)"
      unfolding covers_def using m'[of k] by (intro exI[of _ k] exI[of _ "new_Set T"]) simp
    ultimately show ?thesis
      by (simp add: step cinv_def T_def)
  next
    case (Cons c R)
    then have "c \<in> set E" by simp
    with E_iff obtain mc where mc: "map_of cls c = Some mc" by blast
    define cls1 where "cls1 = AList.map_entry c (fold set_add T) cls"
    have m1: "\<And>k. map_of cls1 k = (if k = c then Some (fold set_add T mc) else map_of cls k)"
      by (simp add: cls1_def map_of_map_entry_pt mc)
    have m1c: "map_of cls1 c = Some (fold set_add T mc)" using m1 by simp
    have d1: "distinct (map fst cls1)" using d by (simp add: cls1_def distinct_map_entry)
    have k1: "fst ` set cls1 = fst ` set cls" by (simp add: cls1_def dom_map_entry)
    have cR: "c \<notin> set R" using dE Cons by simp
    have o1: "olap c R cls1"
      unfolding olap_def
    proof (intro allI impI)
      fix c1 c2 ms1 ms2
      assume a: "map_of cls1 c1 = Some ms1" "map_of cls1 c2 = Some ms2" "c1 \<noteq> c2"
        "set ms1 \<inter> set ms2 \<noteq> {}"
      have key: "\<And>x ms. x \<noteq> c \<Longrightarrow> map_of cls x = Some ms \<Longrightarrow> set ms \<inter> set (fold set_add T mc) \<noteq> {}
                  \<Longrightarrow> x \<in> set R"
      proof -
        fix x ms assume x: "x \<noteq> c" "map_of cls x = Some ms" "set ms \<inter> set (fold set_add T mc) \<noteq> {}"
        from dj x(1,2) mc have "set ms \<inter> set mc = {}" unfolding disj_def by blast
        with x(3) have "set ms \<inter> set T \<noteq> {}" by auto
        with E_iff x(2) have "x \<in> set E" by blast
        with Cons x(1) show "x \<in> set R" by simp
      qed
      show "(c1 = c \<and> c2 \<in> set R) \<or> (c2 = c \<and> c1 \<in> set R)"
      proof (cases "c1 = c")
        case True
        with a m1 have "ms1 = fold set_add T mc" "map_of cls c2 = Some ms2" "c2 \<noteq> c"
          by (auto split: if_splits)
        with key[of c2 ms2] a(4) True show ?thesis by auto
      next
        case c1: False
        show ?thesis
        proof (cases "c2 = c")
          case True
          with a m1 c1 have "ms2 = fold set_add T mc" "map_of cls c1 = Some ms1"
            by (auto split: if_splits)
          with key[of c1 ms1] a(4) True c1 show ?thesis by auto
        next
          case False
          with c1 a m1 have "map_of cls c1 = Some ms1" "map_of cls c2 = Some ms2" by auto
          with dj a(3,4) show ?thesis unfolding disj_def by blast
        qed
      qed
    qed
    have g1: "grows cls cls1"
      unfolding grows_def covers_def
    proof (intro allI impI)
      fix x ms assume xm: "map_of cls x = Some ms"
      show "\<exists>c' m'. map_of cls1 c' = Some m' \<and> set ms \<subseteq> set m'"
      proof (cases "x = c")
        case True
        with xm mc have "ms = mc" by simp
        then have "set ms \<subseteq> set (fold set_add T mc)" by simp
        with m1c show ?thesis by blast
      next
        case False
        with xm m1[of x] have "map_of cls1 x = Some ms" by simp
        then show ?thesis by blast
      qed
    qed
    define cls' where "cls' = merge_clusters c R cls1"
    have step: "cluster_tx tx (cls, n) = (cls', n)"
      using False Cons
      by (cases R) (simp_all add: cluster_tx_def T_def[symmetric] E_def[symmetric] cls'_def cls1_def)
    from merge_clusters_inv[OF d1 m1c cR o1]
    have r: "distinct (map fst cls')" "disj cls'" "fst ` set cls' \<subseteq> fst ` set cls1"
      "grows cls1 cls'" "\<exists>mt'. map_of cls' c = Some mt' \<and> set (fold set_add T mc) \<subseteq> set mt'"
      unfolding cls'_def by blast+
    have "covers cls' (set T)"
    proof -
      from r(5) obtain mt' where "map_of cls' c = Some mt'" "set (fold set_add T mc) \<subseteq> set mt'"
        by blast
      moreover have "set T \<subseteq> set (fold set_add T mc)" by simp
      ultimately show ?thesis unfolding covers_def by blast
    qed
    moreover have "grows cls cls'" using g1 r(4) by (rule grows_trans)
    moreover have "\<forall>c \<in> fst ` set cls'. \<exists>i<n. c = ''cluster_'' @ show_nat i"
      using r(3) k1 ids by blast
    ultimately show ?thesis using r(1,2)
      by (simp add: step cinv_def T_def)
  qed
qed

lemma fold_cluster_tx:
  assumes "cinv st"
  shows "cinv (fold cluster_tx txs st) \<and> grows (fst st) (fst (fold cluster_tx txs st))
         \<and> (\<forall>tx \<in> set txs. 1 < length (getInputAddresses tx)
               \<longrightarrow> covers (fst (fold cluster_tx txs st)) (set (getInputAddresses tx)))"
  using assms
proof (induction txs arbitrary: st)
  case Nil
  then show ?case by (simp add: grows_refl)
next
  case (Cons tx txs)
  obtain cls n where st: "st = (cls, n)" by (cases st)
  from cluster_tx_step[of cls n tx] Cons.prems st
  have s: "cinv (cluster_tx tx st)" "grows (fst st) (fst (cluster_tx tx st))"
    "1 < length (getInputAddresses tx) \<longrightarrow> covers (fst (cluster_tx tx st)) (set (getInputAddresses tx))"
    by auto
  from Cons.IH[OF s(1)]
  have ih: "cinv (fold cluster_tx txs (cluster_tx tx st))"
    "grows (fst (cluster_tx tx st)) (fst (fold cluster_tx txs (cluster_tx tx st)))"
    "\<forall>t \<in> set txs. 1 < length (getInputAddresses t)
        \<longrightarrow> covers (fst (fold cluster_tx txs (cluster_tx tx st))) (set (getInputAddresses t))"
    by auto
  have g: "grows (fst st) (fst (fold cluster_tx txs (cluster_tx tx st)))"
    using s(2) ih(2) by (rule grows_trans)
  have c: "1 < length (getInputAddresses tx)
        \<longrightarrow> covers (fst (fold cluster_tx txs (cluster_tx tx st))) (set (getInputAddresses tx))"
    using s(3) ih(2) covers_mono by blast
  show ?case using ih(1) g c ih(3) by simp
qed

lemma cinv_init: "cinv ([], 1)"
  by (simp add: cinv_def disj_def)

lemma map_of_fold_update:
  "map_of (fold (\<lambda>(k, v). AList.update k v) xs acc) = map_of acc ++ map_of (rev xs)"
  by (induction xs arbitrary: acc) (auto simp: update_conv' map_add_def fun_eq_iff split: option.splits)

lemma distinct_fold_update:
  "distinct (map fst acc) \<Longrightarrow> distinct (map fst (fold (\<lambda>(k, v). AList.update k v) xs acc))"
  by (induction xs arbitrary: acc) (auto simp: distinct_update)

lemma sets_to_arrays_map:
  assumes "distinct (map fst cls)"
  shows "map_of (sets_to_arrays cls) = map_of cls" "distinct (map fst (sets_to_arrays cls))"
proof -
  have "distinct (map fst (rev (own_props cls)))"
    using distinct_keys_own_props[OF assms] by (simp add: rev_map[symmetric])
  then have "map_of (rev (own_props cls)) = map_of cls"
    using assms map_of_inject_set[of "rev (own_props cls)" cls] by simp
  then show "map_of (sets_to_arrays cls) = map_of cls"
    by (simp add: sets_to_arrays_def map_of_fold_update)
  show "distinct (map fst (sets_to_arrays cls))"
    by (simp add: sets_to_arrays_def distinct_fold_update)
qed

lemma commonInputClustering_facts:
  shows "distinct (map fst (commonInputClustering txs))"
    and "disj (commonInputClustering txs)"
    and "\<forall>tx \<in> set txs. 1 < length (getInputAddresses tx)
           \<longrightarrow> covers (commonInputClustering txs) (set (getInputAddresses tx))"
proof -
  let ?cls = "fst (fold cluster_tx txs ([], 1))"
  from fold_cluster_tx[OF cinv_init, of txs]
  have inv: "cinv (fold cluster_tx txs ([], 1))"
    and cov: "\<forall>tx \<in> set txs. 1 < length (getInputAddresses tx)
           \<longrightarrow> covers ?cls (set (getInputAddresses tx))"
    by simp_all
  from inv have d: "distinct (map fst ?cls)" and dj: "disj ?cls" by (simp_all add: cinv_def)
  have m: "map_of (commonInputClustering txs) = map_of ?cls"
    unfolding commonInputClustering_def by (rule sets_to_arrays_map(1)[OF d])
  show "distinct (map fst (commonInputClustering txs))"
    unfolding commonInputClustering_def by (rule sets_to_arrays_map(2)[OF d])
  show "disj (commonInputClustering txs)" using dj by (simp add: disj_def m)
  show "\<forall>tx \<in> set txs. 1 < length (getInputAddresses tx)
           \<longrightarrow> covers (commonInputClustering txs) (set (getInputAddresses tx))"
    using cov by (simp add: covers_def m)
qed

section \<open>Facts about change-address and behavioral clustering\<close>

lemma covered_iff: "covered cls a \<longleftrightarrow> (\<exists>(c, cl) \<in> set cls. a \<in> set cl)"
  by (simp add: covered_def list_ex_iff)

lemma set_update_subset: "set (AList.update k v al) \<subseteq> insert (k, v) (set al)"
  by (induction al) auto

lemma update_keeps: "k \<noteq> k' \<Longrightarrow> (k, v) \<in> set al \<Longrightarrow> (k, v) \<in> set (AList.update k' v' al)"
  by (induction al) auto

lemma update_has: "(k, v) \<in> set (AList.update k v al)"
  by (induction al) auto

lemma update_fresh: "k \<notin> fst ` set al \<Longrightarrow> set (AList.update k v al) = insert (k, v) (set al)"
  by (induction al) auto

lemma fold_update_keeps:
  "k \<notin> fst ` set xs \<Longrightarrow> (k, v) \<in> set acc
   \<Longrightarrow> (k, v) \<in> set (fold (\<lambda>(k, v). AList.update k v) xs acc)"
  by (induction xs arbitrary: acc) (auto simp: update_keeps)

lemma fold_update_has:
  "distinct (map fst xs) \<Longrightarrow> (k, v) \<in> set xs
   \<Longrightarrow> (k, v) \<in> set (fold (\<lambda>(k, v). AList.update k v) xs acc)"
proof (induction xs arbitrary: acc)
  case Nil
  then show ?case by simp
next
  case (Cons x xs)
  show ?case
  proof (cases "x = (k, v)")
    case True
    with Cons.prems(1) have "k \<notin> fst ` set xs" by auto
    from fold_update_keeps[OF this update_has[of k v acc]] True show ?thesis by simp
  next
    case False
    with Cons show ?thesis by (cases x) auto
  qed
qed

lemma set_fold_update_subset:
  "set (fold (\<lambda>(k, v). AList.update k v) xs acc) \<subseteq> set acc \<union> set xs"
proof (induction xs arbitrary: acc)
  case Nil
  then show ?case by simp
next
  case (Cons x xs)
  obtain k v where x: "x = (k, v)" by (cases x)
  from Cons[of "AList.update k v acc"] set_update_subset[of k v acc] x show ?case by auto
qed

lemma set_clusteredAddresses:
  "set (clusteredAddresses cls) = (\<Union>(c, cl) \<in> set cls. set cl)"
proof -
  have "\<And>acc. set (fold (\<lambda>(clusterId, cluster) s. fold set_add cluster s) xs acc)
        = set acc \<union> (\<Union>(c, cl) \<in> set xs. set cl)" for xs :: clusters
    by (induction xs) auto
  then show ?thesis by (simp add: clusteredAddresses_def)
qed

lemma find_similar_Inr:
  "find_similar f newId address xs st = Inr st' \<Longrightarrow> st' = st"
  by (induction xs arbitrary: st) (auto simp: areFeaturesSimilar_def split: if_splits)

lemma behavioral_loop_inv:
  assumes "behavioral_loop f addrs xs st = Inr st'" and "binv st"
  shows "binv st' \<and> set xs \<subseteq> set (snd (snd st')) \<and> set (snd (snd st)) \<subseteq> set (snd (snd st'))
         \<and> set (snd (snd st')) \<subseteq> set (snd (snd st)) \<union> set xs"
  using assms
proof (induction xs arbitrary: st)
  case Nil
  then show ?case by simp
next
  case (Cons x xs)
  obtain cls n processed where st: "st = (cls, n, processed)" by (cases st)
  show ?case
  proof (cases "x \<in> set processed")
    case True
    with Cons.prems st have "behavioral_loop f addrs xs st = Inr st'" by simp
    from Cons.IH[OF this Cons.prems(2)] True st show ?thesis by auto
  next
    case False
    define k where "k = ''behavioral_cluster_'' @ show_nat n"
    define st1 where "st1 = (AList.update k [x] cls, n + 1, set_add x processed)"
    from Cons.prems(1) st False
    have r: "behavioral_loop f addrs xs st1 = Inr st'"
      by (auto simp: Let_def k_def st1_def split: sum.splits dest!: find_similar_Inr)
    from Cons.prems(2) st have d: "distinct (map fst cls)"
      and ids: "\<forall>c \<in> fst ` set cls. \<exists>i<n. c = ''behavioral_cluster_'' @ show_nat i"
      and cov: "\<forall>a \<in> set processed. covered cls a"
      and sub: "\<forall>(c, cl) \<in> set cls. set cl \<subseteq> set processed"
      by (auto simp: binv_def)
    have fresh: "k \<notin> fst ` set cls"
    proof
      assume "k \<in> fst ` set cls"
      with ids obtain i where "i < n" "k = ''behavioral_cluster_'' @ show_nat i" by blast
      then show False by (auto simp: k_def dest: show_nat_inj)
    qed
    have su: "set (AList.update k [x] cls) = insert (k, [x]) (set cls)"
      by (rule update_fresh[OF fresh])
    have b1: "distinct (map fst (AList.update k [x] cls))" using d by (simp add: distinct_update)
    have b2: "\<forall>c \<in> fst ` set (AList.update k [x] cls). \<exists>i<n + 1. c = ''behavioral_cluster_'' @ show_nat i"
    proof
      fix c assume "c \<in> fst ` set (AList.update k [x] cls)"
      with su have "c = k \<or> c \<in> fst ` set cls" by auto
      with ids show "\<exists>i<n + 1. c = ''behavioral_cluster_'' @ show_nat i"
        by (auto simp: k_def intro: less_SucI)
    qed
    have b3: "\<forall>a \<in> set (set_add x processed). covered (AList.update k [x] cls) a"
    proof
      fix a assume "a \<in> set (set_add x processed)"
      then have "a = x \<or> a \<in> set processed" by (auto simp: set_add_def split: if_splits)
      then show "covered (AList.update k [x] cls) a"
      proof
        assume "a = x"
        then show ?thesis unfolding covered_iff su by auto
      next
        assume "a \<in> set processed"
        with cov have "covered cls a" by blast
        then show ?thesis unfolding covered_iff su by auto
      qed
    qed
    have b4: "\<forall>(c, cl) \<in> set (AList.update k [x] cls). set cl \<subseteq> set (set_add x processed)"
      unfolding su using sub by (auto simp: set_add_def)
    have "binv st1"
      unfolding binv_def st1_def using b1 b2 b3 b4 by simp
    from Cons.IH[OF r this] show ?thesis
      by (auto simp: st st1_def set_add_def split: if_splits)
  qed
qed

lemma behavioralClustering_covers:
  assumes "behavioralClustering txs addrs = Inr B"
  shows "(\<forall>a \<in> set addrs. covered B a) \<and> distinct (map fst B)
         \<and> (\<forall>c \<in> fst ` set B. behavioral_key c) \<and> (\<forall>(c, cl) \<in> set B. set cl \<subseteq> set addrs)"
proof -
  let ?f = "\<lambda>address. calculateBehavioralFeatures address txs"
  from assms obtain n p where l: "behavioral_loop ?f addrs addrs ([], 1, []) = Inr (B, n, p)"
    by (auto simp: behavioralClustering_def split: sum.splits)
  have "binv ([], 1, [])" by (simp add: binv_def)
  from behavioral_loop_inv[OF l this]
  have b: "binv (B, n, p)" and s: "set addrs \<subseteq> set p" and s2: "set p \<subseteq> set addrs" by auto
  from b have k: "\<forall>c \<in> fst ` set B. behavioral_key c"
    by (auto simp: binv_def behavioral_key_def)
  from b have bs: "\<forall>(c, cl) \<in> set B. set cl \<subseteq> set p" and bc: "\<forall>a \<in> set p. covered B a"
    by (simp_all add: binv_def)
  from bs s2 have w: "\<forall>(c, cl) \<in> set B. set cl \<subseteq> set addrs" by fast
  from bc s have c: "\<forall>a \<in> set addrs. covered B a" by blast
  from b have d: "distinct (map fst B)" by (simp add: binv_def)
  from c d k w show ?thesis by blast
qed

lemma cluster_key_simp [simp]: "cluster_key (CHR ''c'' # m)"
  by (simp add: cluster_key_def)

lemma key_kinds: "cluster_key k \<Longrightarrow> \<not> behavioral_key k"
  by (auto simp: cluster_key_def behavioral_key_def)

lemma keys_map_entry: "map fst (AList.map_entry k f xs) = map fst xs"
  by (induction xs) auto

lemma sets_to_arrays_subset: "set (sets_to_arrays cls) \<subseteq> set cls"
  using set_fold_update_subset[of "own_props cls" "[]"] by (simp add: sets_to_arrays_def)

lemma commonInput_keys: "list_all cluster_key (map fst (commonInputClustering txs))"
proof -
  from fold_cluster_tx[OF cinv_init, of txs]
  have k: "\<forall>c \<in> fst ` set (fst (fold cluster_tx txs ([], 1))). \<exists>i. c = ''cluster_'' @ show_nat i"
    unfolding cinv_def by blast
  have "\<forall>c \<in> fst ` set (commonInputClustering txs). cluster_key c"
  proof
    fix c assume "c \<in> fst ` set (commonInputClustering txs)"
    with sets_to_arrays_subset have "c \<in> fst ` set (fst (fold cluster_tx txs ([], 1)))"
      unfolding commonInputClustering_def by blast
    with k obtain i where "c = ''cluster_'' @ show_nat i" by blast
    then show "cluster_key c" by simp
  qed
  then show ?thesis by (simp add: list_all_iff)
qed

lemma keys_json_clone: "map fst (json_clone cls) = map fst (own_props cls)"
  by (simp add: json_clone_def case_prod_beta)

lemma change_tx_keys:
  assumes "distinct (map fst U)" and "list_all cluster_key (map fst U)"
  shows "distinct (map fst (change_tx txs tx U)) \<and> list_all cluster_key (map fst (change_tx txs tx U))"
  using assms
  by (auto simp: change_tx_def Let_def keys_map_entry update_keys distinct_update
      isChangeAddressCandidate_def split: list.splits option.splits)

lemma fold_change_tx_keys:
  assumes "distinct (map fst U)" and "list_all cluster_key (map fst U)"
  shows "distinct (map fst (fold (change_tx txs) xs U))
         \<and> list_all cluster_key (map fst (fold (change_tx txs) xs U))"
  using assms
proof (induction xs arbitrary: U)
  case Nil
  then show ?case by simp
next
  case (Cons x xs)
  from change_tx_keys[OF Cons.prems, of txs x] Cons.IH[of "change_tx txs x U"] show ?case by simp
qed

lemma changeAddress_keys:
  "distinct (map fst (changeAddressIdentification txs (commonInputClustering txs)))
   \<and> list_all cluster_key (map fst (changeAddressIdentification txs (commonInputClustering txs)))"
proof -
  let ?c = "commonInputClustering txs"
  have d: "distinct (map fst (json_clone ?c))"
    using commonInputClustering_facts(1)[of txs] by (simp add: keys_json_clone distinct_keys_own_props)
  have "set (map fst (json_clone ?c)) = set (map fst ?c)"
    by (simp add: keys_json_clone)
  with commonInput_keys[of txs] have k: "list_all cluster_key (map fst (json_clone ?c))"
    unfolding list_all_iff by blast
  from fold_change_tx_keys[OF d k] show ?thesis by (simp add: changeAddressIdentification_def)
qed

lemma combinedClustering_covers:
  assumes "combinedClustering txs addrs = Inr cls" and "a \<in> set addrs"
  shows "covered cls a"
proof -
  define U where "U = changeAddressIdentification txs (commonInputClustering txs)"
  define un where "un = filter (\<lambda>address. address \<notin> set (clusteredAddresses U)) addrs"
  have dU: "distinct (map fst U)" and kU: "\<forall>c \<in> fst ` set U. cluster_key c"
    using changeAddress_keys[of txs] by (simp_all add: U_def list_all_iff)
  show ?thesis
  proof (cases "length un > 0")
    case False
    with assms(1) have "cls = U" by (simp add: combinedClustering_def Let_def U_def un_def)
    moreover from False assms(2) have "a \<in> set (clusteredAddresses U)" by (auto simp: un_def filter_empty_conv)
    ultimately show ?thesis by (auto simp: covered_iff set_clusteredAddresses)
  next
    case True
    with assms(1) obtain B where B: "behavioralClustering txs un = Inr B"
      and cls: "cls = fold (\<lambda>(clusterId, cluster). AList.update clusterId cluster) (own_props B) U"
      by (auto simp: combinedClustering_def Let_def U_def un_def split: sum.splits)
    from behavioralClustering_covers[OF B]
    have cB: "\<forall>a \<in> set un. covered B a" and dB: "distinct (map fst B)"
      and kB: "\<forall>c \<in> fst ` set B. behavioral_key c" by auto
    show ?thesis
    proof (cases "a \<in> set (clusteredAddresses U)")
      case True
      then obtain c cl where in_U: "(c, cl) \<in> set U" "a \<in> set cl"
        by (auto simp: set_clusteredAddresses)
      with kU have "cluster_key c" by force
      then have "\<not> behavioral_key c" by (rule key_kinds)
      with kB have "c \<notin> fst ` set (own_props B)" by auto
      from fold_update_keeps[OF this in_U(1)] in_U(2) show ?thesis
        unfolding cls covered_iff by blast
    next
      case False
      with assms(2) have "a \<in> set un" by (simp add: un_def)
      with cB obtain c cl where in_B: "(c, cl) \<in> set B" "a \<in> set cl" by (auto simp: covered_iff)
      then have "(c, cl) \<in> set (own_props B)" by simp
      from fold_update_has[OF distinct_keys_own_props[OF dB] this] in_B(2) show ?thesis
        unfolding cls covered_iff by blast
    qed
  qed
qed

lemma commonInput_disjoint: "clusters_disjoint (commonInputClustering txs)"
proof -
  let ?r = "commonInputClustering txs"
  have d: "distinct (map fst ?r)" by (rule commonInputClustering_facts(1))
  have "\<And>c1 m1 c2 m2 a. (c1, m1) \<in> set ?r \<Longrightarrow> (c2, m2) \<in> set ?r \<Longrightarrow> c1 \<noteq> c2
          \<Longrightarrow> a \<in> set m1 \<Longrightarrow> a \<notin> set m2"
  proof -
    fix c1 m1 c2 m2 a
    assume h: "(c1, m1) \<in> set ?r" "(c2, m2) \<in> set ?r" "c1 \<noteq> c2" "a \<in> set m1"
    from h(1,2) d have "map_of ?r c1 = Some m1" "map_of ?r c2 = Some m2" by simp_all
    with commonInputClustering_facts(2)[of txs] h(3) have "set m1 \<inter> set m2 = {}"
      unfolding disj_def by blast
    with h(4) show "a \<notin> set m2" by auto
  qed
  then show ?thesis
    unfolding clusters_disjoint_def list_all_iff by fast
qed

lemma within_update:
  "members_within S cls \<Longrightarrow> set v \<subseteq> S \<Longrightarrow> members_within S (AList.update k v cls)"
  using set_update_subset[of k v cls] unfolding members_within_def by fast

lemma within_map_entry:
  "members_within S cls \<Longrightarrow> (\<And>ms. set ms \<subseteq> S \<Longrightarrow> set (f ms) \<subseteq> S)
   \<Longrightarrow> members_within S (AList.map_entry k f cls)"
proof -
  assume w: "members_within S cls" and f: "\<And>ms. set ms \<subseteq> S \<Longrightarrow> set (f ms) \<subseteq> S"
  have e: "\<And>c cl. (c, cl) \<in> set (AList.map_entry k f cls)
             \<Longrightarrow> (c, cl) \<in> set cls \<or> (\<exists>v. (c, v) \<in> set cls \<and> cl = f v)"
    by (induction cls) (auto split: if_splits)
  show ?thesis
    unfolding members_within_def
  proof (clarify)
    fix c cl x assume "(c, cl) \<in> set (AList.map_entry k f cls)" "x \<in> set cl"
    with e[of c cl] w f show "x \<in> S" unfolding members_within_def by blast
  qed
qed

lemma within_delete: "members_within S cls \<Longrightarrow> members_within S (AList.delete k cls)"
  by (auto simp: members_within_def AList.delete_eq)

lemma within_members_of: "members_within S cls \<Longrightarrow> set (members_of cls k) \<subseteq> S"
  by (cases "map_of cls k") (auto simp: members_within_def members_of_def dest!: map_of_SomeD)

lemma within_merge:
  "members_within S cls \<Longrightarrow> members_within S (merge_clusters t R cls)"
proof (induction R arbitrary: cls)
  case Nil
  then show ?case by simp
next
  case (Cons r R)
  have "members_within S (AList.map_entry t (fold set_add (members_of cls r)) cls)"
    using Cons.prems within_members_of[OF Cons.prems, of r]
    by (intro within_map_entry) auto
  then have "members_within S (AList.delete r (AList.map_entry t (fold set_add (members_of cls r)) cls))"
    by (rule within_delete)
  from Cons.IH[OF this] show ?case by simp
qed

lemma within_cluster_tx:
  assumes "members_within S (fst st)" and "set (getInputAddresses tx) \<subseteq> S"
  shows "members_within S (fst (cluster_tx tx st))"
proof -
  have m: "\<And>k. members_within S (AList.map_entry k (fold set_add (getInputAddresses tx)) (fst st))"
    using assms by (intro within_map_entry) auto
  show ?thesis
    using assms m
    by (auto simp: cluster_tx_def Let_def within_update within_merge split: list.splits
        simp del: merge_clusters.simps)
qed

lemma within_fold_cluster_tx:
  assumes "members_within S (fst st)" and "\<forall>tx \<in> set txs. set (getInputAddresses tx) \<subseteq> S"
  shows "members_within S (fst (fold cluster_tx txs st))"
  using assms
proof (induction txs arbitrary: st)
  case Nil
  then show ?case by simp
next
  case (Cons tx txs)
  from within_cluster_tx[of S st tx] Cons.prems have "members_within S (fst (cluster_tx tx st))" by simp
  from Cons.IH[OF this] Cons.prems(2) show ?case by simp
qed

lemma within_mono: "members_within S cls \<Longrightarrow> set cls' \<subseteq> set cls \<Longrightarrow> members_within S cls'"
  unfolding members_within_def by blast

lemma json_value_id: "v \<noteq> JUndefined \<Longrightarrow> json_value v = v"
  by (cases v) simp_all

lemma within_json_clone:
  assumes "members_within S cls" and "JUndefined \<notin> S"
  shows "members_within S (json_clone cls)"
proof -
  have "\<And>x. x \<in> S \<Longrightarrow> json_value x = x"
    using assms(2) json_value_id by metis
  with assms(1) show ?thesis
    by (fastforce simp: members_within_def json_clone_def)
qed

lemma within_change_tx:
  assumes "members_within S U" and "set (getInputAddresses tx) \<subseteq> S" and "set (getOutputAddresses tx) \<subseteq> S"
  shows "members_within S (change_tx txs tx U)"
proof -
  have o: "\<And>x. filter (\<lambda>address. \<not> hasAddressAppearedBefore address tx txs) (getOutputAddresses tx) = [x]
        \<Longrightarrow> x \<in> S"
  proof -
    fix x assume "filter (\<lambda>address. \<not> hasAddressAppearedBefore address tx txs) (getOutputAddresses tx) = [x]"
    then have "x \<in> set (filter (\<lambda>address. \<not> hasAddressAppearedBefore address tx txs) (getOutputAddresses tx))"
      by simp
    with assms(3) show "x \<in> S" by auto
  qed
  show ?thesis
    using assms(1,2) o
    by (auto simp: change_tx_def Let_def split: list.splits option.splits
        intro!: within_update within_map_entry)
qed

lemma within_fold_change_tx:
  assumes "members_within S U"
    and "\<forall>tx \<in> set xs. set (getInputAddresses tx) \<subseteq> S \<and> set (getOutputAddresses tx) \<subseteq> S"
  shows "members_within S (fold (change_tx txs) xs U)"
  using assms
proof (induction xs arbitrary: U)
  case Nil
  then show ?case by simp
next
  case (Cons x xs)
  from within_change_tx[of S U x txs] Cons.prems have "members_within S (change_tx txs x U)" by simp
  from Cons.IH[OF this] Cons.prems(2) show ?case by simp
qed

lemma combinedClustering_within:
  assumes "combinedClustering txs addrs = Inr cls" and "JUndefined \<notin> set (transaction_addresses txs)"
  shows "members_within (set (transaction_addresses txs) \<union> set addrs) cls"
proof -
  let ?S = "set (transaction_addresses txs) \<union> set addrs"
  have io: "\<forall>tx \<in> set txs. set (getInputAddresses tx) \<subseteq> set (transaction_addresses txs)
              \<and> set (getOutputAddresses tx) \<subseteq> set (transaction_addresses txs)"
    by (auto simp: transaction_addresses_def)
  define U where "U = changeAddressIdentification txs (commonInputClustering txs)"
  define un where "un = filter (\<lambda>address. address \<notin> set (clusteredAddresses U)) addrs"
  have "members_within (set (transaction_addresses txs)) (fst (fold cluster_tx txs ([], 1)))"
    using io by (intro within_fold_cluster_tx) (auto simp: members_within_def)
  then have "members_within (set (transaction_addresses txs)) (commonInputClustering txs)"
    unfolding commonInputClustering_def using sets_to_arrays_subset by (rule within_mono)
  then have "members_within (set (transaction_addresses txs)) (json_clone (commonInputClustering txs))"
    using assms(2) by (rule within_json_clone)
  then have "members_within (set (transaction_addresses txs)) U"
    unfolding U_def changeAddressIdentification_def using io by (rule within_fold_change_tx)
  then have wU: "members_within ?S U" unfolding members_within_def by blast
  show ?thesis
  proof (cases "length un > 0")
    case False
    with assms(1) have "cls = U" by (simp add: combinedClustering_def Let_def U_def un_def)
    with wU show ?thesis by simp
  next
    case True
    with assms(1) obtain B where B: "behavioralClustering txs un = Inr B"
      and cls: "cls = fold (\<lambda>(clusterId, cluster). AList.update clusterId cluster) (own_props B) U"
      by (auto simp: combinedClustering_def Let_def U_def un_def split: sum.splits)
    from behavioralClustering_covers[OF B] have "\<forall>(c, cl) \<in> set B. set cl \<subseteq> set un" by blast
    moreover have "set un \<subseteq> set addrs" by (auto simp: un_def)
    ultimately have wB: "members_within ?S B" unfolding members_within_def by blast
    have "set cls \<subseteq> set U \<union> set B"
      using set_fold_update_subset[of "own_props B" U] by (simp add: cls)
    with wU wB show ?thesis unfolding members_within_def by blast
  qed
qed

section \<open>Merge transitivity of the common-input heuristic\<close>

text \<open>
  C2. Whenever the transaction list holds a transaction \<open>T1\<close> with input addresses \<open>A\<close> and
  \<open>B\<close> and a transaction \<open>T2\<close> with input addresses \<open>B\<close> and \<open>C\<close>, each with at least two
  distinct inputs, one cluster of the result of \<open>commonInputClustering\<close> holds \<open>A\<close>, \<open>B\<close>
  and \<open>C\<close>. The positions of \<open>T1\<close> and \<open>T2\<close> in the list are arbitrary, so the order in
  which they are processed does not matter.
\<close>

theorem merge_transitivity:
  assumes "T1 \<in> set transactions" and "T2 \<in> set transactions"
    and "A \<in> set (getInputAddresses T1)" and "B \<in> set (getInputAddresses T1)"
    and "2 \<le> card (set (getInputAddresses T1))"
    and "B \<in> set (getInputAddresses T2)" and "C \<in> set (getInputAddresses T2)"
    and "2 \<le> card (set (getInputAddresses T2))"
  shows "same_cluster (commonInputClustering transactions) [A, B, C]"
proof -
  let ?r = "commonInputClustering transactions"
  have l1: "1 < length (getInputAddresses T1)"
    using assms(5) card_length[of "getInputAddresses T1"] by linarith
  have l2: "1 < length (getInputAddresses T2)"
    using assms(8) card_length[of "getInputAddresses T2"] by linarith
  from commonInputClustering_facts(3)[of transactions] assms(1) l1
  obtain c1 m1 where c1: "map_of ?r c1 = Some m1" "set (getInputAddresses T1) \<subseteq> set m1"
    unfolding covers_def by blast
  from commonInputClustering_facts(3)[of transactions] assms(2) l2
  obtain c2 m2 where c2: "map_of ?r c2 = Some m2" "set (getInputAddresses T2) \<subseteq> set m2"
    unfolding covers_def by blast
  have "B \<in> set m1 \<inter> set m2" using assms(4,6) c1(2) c2(2) by auto
  with commonInputClustering_facts(2)[of transactions] c1(1) c2(1) have "c1 = c2"
    unfolding disj_def by blast
  with c1(1) c2(1) have "m1 = m2" by simp
  with assms(3,4,7) c1(2) c2(2) have "A \<in> set m1" "B \<in> set m1" "C \<in> set m1" by auto
  moreover from c1(1) have "(c1, m1) \<in> set ?r" by (rule map_of_SomeD)
  ultimately show ?thesis
    unfolding same_cluster_def list_ex_iff by force
qed

theorem merge_transitivity_witness:
  "same_cluster (commonInputClustering [spend ''h1'' [''a'', ''b''] [], spend ''h2'' [''b'', ''c''] []])
     [JStr ''a'', JStr ''b'', JStr ''c'']
   \<and> same_cluster (commonInputClustering [spend ''h2'' [''b'', ''c''] [], spend ''h1'' [''a'', ''b''] []])
     [JStr ''a'', JStr ''b'', JStr ''c'']"
  using merge_transitivity[of "spend ''h1'' [''a'', ''b''] []"
          "[spend ''h1'' [''a'', ''b''] [], spend ''h2'' [''b'', ''c''] []]"
          "spend ''h2'' [''b'', ''c''] []" "JStr ''a''" "JStr ''b''" "JStr ''c''"]
        merge_transitivity[of "spend ''h1'' [''a'', ''b''] []"
          "[spend ''h2'' [''b'', ''c''] [], spend ''h1'' [''a'', ''b''] []]"
          "spend ''h2'' [''b'', ''c''] []" "JStr ''a''" "JStr ''b''" "JStr ''c''"]
  by (simp add: getInputAddresses_def spend_def)

section \<open>The call of an undeclared function in behavioral clustering\<close>

text \<open>
  C6. The claim is that \<open>combinedClustering\<close> always returns. One transaction that spends
  \<open>a\<close> and \<open>b\<close> to the two new addresses \<open>c\<close> and \<open>d\<close> leaves \<open>c\<close> and \<open>d\<close> unclustered;
  behavioral clustering then compares them through the undeclared \<open>areFeaturesSimilar\<close>,
  and the whole run fails.
\<close>

theorem combinedClustering_fails:
  "combinedClustering [spend ''h1'' [''a'', ''b''] [''c'', ''d'']]
     [JStr ''a'', JStr ''b'', JStr ''c'', JStr ''d'']
   = Inl (Error ''Combined clustering failed: Behavioral clustering failed: areFeaturesSimilar is not defined'')"
  by code_simp

section \<open>The clusters as a partition\<close>

text \<open>
  C1 as stated fails: \<open>x\<close> pays \<open>a\<close>, then \<open>a\<close> and \<open>b\<close> are spent together. The
  common-input step clusters \<open>a\<close> with \<open>b\<close>; the change-address step then takes \<open>a\<close> for
  the change address of the first payment and opens a second cluster for \<open>x\<close> and \<open>a\<close>.
  The address \<open>a\<close> lies in two clusters of the combined result.
\<close>

theorem partition_counterexample:
  "extractUniqueAddresses [pay ''h1'' ''x'' ''a'', spend ''h2'' [''a'', ''b''] [''x'']]
     = [JStr ''x'', JStr ''a'', JStr ''b'']
   \<and> combinedClustering [pay ''h1'' ''x'' ''a'', spend ''h2'' [''a'', ''b''] [''x'']]
       [JStr ''x'', JStr ''a'', JStr ''b'']
     = Inr [(''cluster_1'', [JStr ''a'', JStr ''b'']), (''cluster_2'', [JStr ''x'', JStr ''a''])]
   \<and> \<not> clusters_disjoint [(''cluster_1'', [JStr ''a'', JStr ''b'']), (''cluster_2'', [JStr ''x'', JStr ''a''])]"
  by code_simp

text \<open>
  C1, amended. Whenever \<open>combinedClustering\<close> returns: every address of the address list
  lies in at least one cluster; when no address slot of a transaction is undefined, every
  member of a cluster is an address of a transaction or of the address list, so that for
  the list of all addresses that appear in the transactions the union of the clusters is
  this set of addresses. The clusters of \<open>commonInputClustering\<close> are pairwise disjoint;
  those of the combined result need not be.
\<close>

theorem clusters_cover:
  assumes "combinedClustering transactions addresses = Inr cls"
  shows "list_all (covered cls) addresses
       \<and> (JUndefined \<notin> set (transaction_addresses transactions) \<longrightarrow>
            members_within (set (transaction_addresses transactions) \<union> set addresses) cls)
       \<and> (JUndefined \<notin> set (transaction_addresses transactions)
            \<and> set addresses = set (transaction_addresses transactions) \<longrightarrow>
            (\<Union>(clusterId, cluster) \<in> set cls. set cluster) = set addresses)
       \<and> clusters_disjoint (commonInputClustering transactions)"
proof -
  have c: "list_all (covered cls) addresses"
    using combinedClustering_covers[OF assms] by (simp add: list_all_iff)
  have w: "JUndefined \<notin> set (transaction_addresses transactions) \<longrightarrow>
            members_within (set (transaction_addresses transactions) \<union> set addresses) cls"
    using combinedClustering_within[OF assms] by blast
  have u: "JUndefined \<notin> set (transaction_addresses transactions)
            \<and> set addresses = set (transaction_addresses transactions) \<longrightarrow>
            (\<Union>(clusterId, cluster) \<in> set cls. set cluster) = set addresses"
  proof
    assume h: "JUndefined \<notin> set (transaction_addresses transactions)
            \<and> set addresses = set (transaction_addresses transactions)"
    with w have "members_within (set addresses) cls" by simp
    then have "(\<Union>(clusterId, cluster) \<in> set cls. set cluster) \<subseteq> set addresses"
      unfolding members_within_def by blast
    moreover have "set addresses \<subseteq> (\<Union>(clusterId, cluster) \<in> set cls. set cluster)"
      using c unfolding list_all_iff covered_iff by blast
    ultimately show "(\<Union>(clusterId, cluster) \<in> set cls. set cluster) = set addresses" by blast
  qed
  from c w u commonInput_disjoint show ?thesis by blast
qed

theorem clusters_cover_witness:
  "combinedClustering [spend ''h1'' [''a'', ''b''] [''c''], pay ''h2'' ''c'' ''a'']
       [JStr ''a'', JStr ''b'', JStr ''c'']
     = Inr [(''cluster_1'', [JStr ''a'', JStr ''b'', JStr ''c''])]
   \<and> list_all (covered [(''cluster_1'', [JStr ''a'', JStr ''b'', JStr ''c''])])
        [JStr ''a'', JStr ''b'', JStr ''c'']
   \<and> (\<Union>(clusterId, cluster) \<in> set [(''cluster_1'', [JStr ''a'', JStr ''b'', JStr ''c''])]. set cluster)
       = set [JStr ''a'', JStr ''b'', JStr ''c'']
   \<and> clusters_disjoint (commonInputClustering [spend ''h1'' [''a'', ''b''] [''c''], pay ''h2'' ''c'' ''a''])"
proof -
  let ?txs = "[spend ''h1'' [''a'', ''b''] [''c''], pay ''h2'' ''c'' ''a'']"
  have v: "combinedClustering ?txs [JStr ''a'', JStr ''b'', JStr ''c'']
     = Inr [(''cluster_1'', [JStr ''a'', JStr ''b'', JStr ''c''])]" by code_simp
  have t: "transaction_addresses ?txs = [JStr ''a'', JStr ''b'', JStr ''c'', JStr ''c'', JStr ''a'']"
    by code_simp
  from clusters_cover[OF v] t v show ?thesis by simp
qed

end
